theory Spec2Isabelle
  imports Main
begin

section \<open>JavaScript values and strings\<close>

text \<open>
  The scripts read parsed JSON bodies and combine the properties they find with
  \<^verbatim>\<open>||\<close>, \<^verbatim>\<open>!\<close> and \<^verbatim>\<open>String(...)\<close>. A value is one of the JSON
  shapes the two endpoints can return, plus \<^verbatim>\<open>undefined\<close> for a missing property.
  Numbers are integers (the endpoints carry ids), strings are byte strings, and arrays
  are not needed by the defaults scripts.
\<close>

datatype jv =
    JUndef
  | JNull
  | JBool bool
  | JNum int
  | JStr string
  | JObj "(string \<times> jv) list"

fun truthy :: "jv \<Rightarrow> bool" where
  "truthy JUndef = False"
| "truthy JNull = False"
| "truthy (JBool b) = b"
| "truthy (JNum n) = (n \<noteq> 0)"
| "truthy (JStr s) = (s \<noteq> [])"
| "truthy (JObj kvs) = True"

text \<open>\<^verbatim>\<open>a || b\<close>\<close>

definition js_or :: "jv \<Rightarrow> jv \<Rightarrow> jv" where
  "js_or a b = (if truthy a then a else b)"

text \<open>
  \<^verbatim>\<open>v.k\<close> on a value that is neither \<^verbatim>\<open>null\<close> nor \<^verbatim>\<open>undefined\<close>: the
  property of an object (the last duplicate key wins, as in \<^verbatim>\<open>JSON.parse\<close>),
  \<^verbatim>\<open>undefined\<close> on a primitive. On \<^verbatim>\<open>null\<close> and \<^verbatim>\<open>undefined\<close> the access
  throws; callers that can reach it test \<open>nullish\<close> first.
\<close>

fun nullish :: "jv \<Rightarrow> bool" where
  "nullish JUndef = True"
| "nullish JNull = True"
| "nullish _ = False"

fun get_prop :: "jv \<Rightarrow> string \<Rightarrow> jv" where
  "get_prop (JObj kvs) k = (case map_of (rev kvs) k of None \<Rightarrow> JUndef | Some v \<Rightarrow> v)"
| "get_prop _ k = JUndef"

definition digit_char :: "nat \<Rightarrow> char" where
  "digit_char n = char_of (48 + n)"

fun dec_nat :: "nat \<Rightarrow> string" where
  "dec_nat n = (if n < 10 then [digit_char n] else dec_nat (n div 10) @ [digit_char (n mod 10)])"

declare dec_nat.simps [simp del]

definition dec_int :: "int \<Rightarrow> string" where
  "dec_int i = (if i < 0 then CHR ''-'' # dec_nat (nat (- i)) else dec_nat (nat i))"

text \<open>\<^verbatim>\<open>String(v)\<close>\<close>

fun js_String :: "jv \<Rightarrow> string" where
  "js_String JUndef = ''undefined''"
| "js_String JNull = ''null''"
| "js_String (JBool b) = (if b then ''true'' else ''false'')"
| "js_String (JNum n) = dec_int n"
| "js_String (JStr s) = s"
| "js_String (JObj kvs) = ''[object Object]''"

text \<open>\<^verbatim>\<open>/^\d+$/.test(s)\<close>: one or more ASCII digits and nothing else.\<close>

definition is_digit :: "char \<Rightarrow> bool" where
  "is_digit c = ((48::nat) \<le> of_char c \<and> of_char c \<le> (57::nat))"

definition all_digits :: "string \<Rightarrow> bool" where
  "all_digits s = (s \<noteq> [] \<and> list_all is_digit s)"

text \<open>
  \<^verbatim>\<open>s.trim()\<close> strips the white space and the line terminators of JavaScript from
  both ends. A string is the UTF-8 encoding of the script's string, so each of these
  characters is matched by its encoding: one byte for tab, line feed, vertical tab, form
  feed, carriage return and space (\<open>is_space\<close>); two bytes for U+00A0 (\<open>space2\<close>);
  three bytes for U+1680, U+2000 to U+200A, U+2028, U+2029, U+202F, U+205F, U+3000 and
  U+FEFF (\<open>space3\<close>). A lead byte never occurs inside another character, so matching
  the encodings from the end strips exactly the trailing characters; \<open>trimEnd_rev\<close>
  works on the reversed string.
\<close>

definition is_space :: "char \<Rightarrow> bool" where
  "is_space c = (of_char c \<in> {9::nat, 10, 11, 12, 13, 32})"

definition space2 :: "char \<Rightarrow> char \<Rightarrow> bool" where
  "space2 a b = (of_char a = (194::nat) \<and> of_char b = (160::nat))"

definition space3 :: "char \<Rightarrow> char \<Rightarrow> char \<Rightarrow> bool" where
  "space3 a b c =
     (let x = of_char a :: nat; y = of_char b :: nat; z = of_char c :: nat
      in (x = 225 \<and> y = 154 \<and> z = 128)
       \<or> (x = 226 \<and> y = 128 \<and> ((128 \<le> z \<and> z \<le> 138) \<or> z = 168 \<or> z = 169 \<or> z = 175))
       \<or> (x = 226 \<and> y = 129 \<and> z = 159)
       \<or> (x = 227 \<and> y = 128 \<and> z = 128)
       \<or> (x = 239 \<and> y = 187 \<and> z = 191))"

fun trimStart :: "string \<Rightarrow> string" where
  "trimStart (a # b # c # s) =
     (if is_space a then trimStart (b # c # s)
      else if space2 a b then trimStart (c # s)
      else if space3 a b c then trimStart s
      else a # b # c # s)"
| "trimStart [a, b] =
     (if is_space a then trimStart [b]
      else if space2 a b then []
      else [a, b])"
| "trimStart [a] = (if is_space a then [] else [a])"
| "trimStart [] = []"

fun trimEnd_rev :: "string \<Rightarrow> string" where
  "trimEnd_rev (c # b # a # s) =
     (if is_space c then trimEnd_rev (b # a # s)
      else if space2 b c then trimEnd_rev (a # s)
      else if space3 a b c then trimEnd_rev s
      else c # b # a # s)"
| "trimEnd_rev [b, a] =
     (if is_space b then trimEnd_rev [a]
      else if space2 a b then []
      else [b, a])"
| "trimEnd_rev [a] = (if is_space a then [] else [a])"
| "trimEnd_rev [] = []"

definition trimEnd :: "string \<Rightarrow> string" where
  "trimEnd s = rev (trimEnd_rev (rev s))"

definition trim :: "string \<Rightarrow> string" where
  "trim s = trimEnd (trimStart s)"

text \<open>\<^verbatim>\<open>s.toLowerCase()\<close> on ASCII letters, and \<^verbatim>\<open>s.includes(sub)\<close>.\<close>

definition lower_char :: "char \<Rightarrow> char" where
  "lower_char c = (if (65::nat) \<le> of_char c \<and> of_char c \<le> (90::nat) then char_of (of_char c + (32::nat)) else c)"

definition toLowerCase :: "string \<Rightarrow> string" where
  "toLowerCase s = map lower_char s"

fun str_includes :: "string \<Rightarrow> string \<Rightarrow> bool" where
  "str_includes [] sub = (sub = [])"
| "str_includes (c # cs) sub = (take (length sub) (c # cs) = sub \<or> str_includes cs sub)"

text \<open>\<^verbatim>\<open>xs.join(sep)\<close>\<close>

fun join :: "string list \<Rightarrow> string \<Rightarrow> string" where
  "join [] sep = []"
| "join [x] sep = x"
| "join (x # y # ys) sep = x @ sep @ join (y # ys) sep"

section \<open>The network\<close>

text \<open>
  What \<^verbatim>\<open>await fetch(url)\<close> can settle to: the promise rejects (network error), or
  it resolves to a response with a status, an optional \<^verbatim>\<open>content-type\<close> header and
  a body; \<open>None\<close> as the body is text that \<^verbatim>\<open>res.json()\<close> rejects (an HTML login
  page), \<open>Some v\<close> the value it parses to.
\<close>

datatype 'b fetched =
    NetworkError
  | Response nat "string option" "'b option"

text \<open>The defaults endpoints answer with a JSON value.\<close>

type_synonym response = "jv fetched"

text \<open>\<^verbatim>\<open>res.ok\<close>: the status is in the range 200..299.\<close>

definition status_ok :: "nat \<Rightarrow> bool" where
  "status_ok st = (200 \<le> st \<and> st < 300)"

text \<open>An \<^verbatim>\<open>async\<close> function either resolves to a value or rejects.\<close>

datatype 'a settled = Resolved 'a | Rejected

section \<open>The document\<close>

text \<open>
  A form control has a value and a disabled flag. The scripts find the dependent
  fields by id or name suffix; the document is not restructured while they run, so a
  lookup made before an \<^verbatim>\<open>await\<close> and one made after it yield the same elements,
  and the model keeps the located elements in a store indexed by the key under which
  \<^verbatim>\<open>locateFields\<close> returns them (\<open>None\<close>: no such element on the page).
\<close>

record element =
  el_value :: string
  el_disabled :: bool

datatype fieldkey = Pickup | Dropoff | Start | Notes | PCity | PState | DCity | DState

text \<open>Events dispatched on a field by \<^verbatim>\<open>emit\<close>, and lines written to the console.\<close>

datatype event = Emitted fieldkey string

datatype console_line = Warn string | Log string

text \<open>The calls that toggle the busy state, recorded in call order.\<close>

datatype gate_call = ShowSpinner | HideSpinner | SetDisabled bool

record page =
  debug :: bool
  client_value :: string
  has_holder :: bool
  spinner :: "bool option"
  located :: "fieldkey \<Rightarrow> element option"
  events :: "event list"
  console :: "console_line list"
  requests :: "string list"
  gate_calls :: "gate_call list"

text \<open>
  \<open>debug\<close> is \<^verbatim>\<open>window.__AUTO_DEBUG__\<close>, \<open>client_value\<close> the value of the client
  select, \<open>has_holder\<close> whether the select has a parent element, \<open>spinner\<close> the
  injected spinner (\<open>None\<close> before it is created, \<open>Some True\<close> while displayed),
  \<open>requests\<close> the URLs passed to \<^verbatim>\<open>fetch\<close>.
\<close>

section \<open>src/unnamed/part\_000: defaults with spinner and disabled state\<close>

definition log :: "string \<Rightarrow> page \<Rightarrow> page" where
  "log msg p = (if debug p then p\<lparr>console := console p @ [Log msg]\<rparr> else p)"

definition warn :: "string \<Rightarrow> page \<Rightarrow> page" where
  "warn msg p = p\<lparr>console := console p @ [Warn msg]\<rparr>"

definition emit :: "fieldkey \<Rightarrow> string \<Rightarrow> page \<Rightarrow> page" where
  "emit k type p = p\<lparr>events := events p @ [Emitted k type]\<rparr>"

text \<open>\<^verbatim>\<open>ensureSpinnerFor\<close> returns the page and whether \<^verbatim>\<open>sp\<close> is an element.\<close>

definition ensureSpinnerFor :: "page \<Rightarrow> page \<times> bool" where
  "ensureSpinnerFor p =
     (if \<not> has_holder p then (p, False)
      else (case spinner p of
              None \<Rightarrow> (p\<lparr>spinner := Some False\<rparr>, True)
            | Some shown \<Rightarrow> (p, True)))"

definition showSpinner :: "bool \<Rightarrow> page \<Rightarrow> page" where
  "showSpinner sp p =
     (let p1 = p\<lparr>gate_calls := gate_calls p @ [ShowSpinner]\<rparr>
      in if sp then p1\<lparr>spinner := Some True\<rparr> else p1)"

definition hideSpinner :: "bool \<Rightarrow> page \<Rightarrow> page" where
  "hideSpinner sp p =
     (let p1 = p\<lparr>gate_calls := gate_calls p @ [HideSpinner]\<rparr>
      in if sp then p1\<lparr>spinner := Some False\<rparr> else p1)"

definition setDisabled :: "bool \<Rightarrow> page \<Rightarrow> page" where
  "setDisabled flag p =
     p\<lparr>located := (\<lambda>k. map_option (\<lambda>el. el\<lparr>el_disabled := flag\<rparr>) (located p k)),
       gate_calls := gate_calls p @ [SetDisabled flag]\<rparr>"

text \<open>What \<^verbatim>\<open>forceSet\<close> writes for a value: \<^verbatim>\<open>value == null ? "" : String(value)\<close>.\<close>

definition written :: "jv \<Rightarrow> string" where
  "written v = (if nullish v then [] else js_String v)"

text \<open>
  \<^verbatim>\<open>forceSet(el, value)\<close>: nothing on a missing element; otherwise the value is
  written whatever the element held, both events are dispatched, and the result is
  \<^verbatim>\<open>true\<close>. (The background flash is visual only.)
\<close>

definition forceSet :: "fieldkey \<Rightarrow> jv \<Rightarrow> page \<Rightarrow> page \<times> bool" where
  "forceSet k val p =
     (case located p k of
        None \<Rightarrow> (p, False)
      | Some el \<Rightarrow>
          (let v = written val;
               p1 = p\<lparr>located := (located p)(k := Some (el\<lparr>el_value := v\<rparr>))\<rparr>;
               p2 = emit k ''input'' p1;
               p3 = emit k ''change'' p2
           in (p3, True)))"

text \<open>\<^verbatim>\<open>fetchJSON\<close>, from the point where \<^verbatim>\<open>fetch\<close> has settled.\<close>

definition fetchJSON :: "response \<Rightarrow> page \<Rightarrow> jv \<times> page" where
  "fetchJSON r p =
     (case r of
        NetworkError \<Rightarrow> (JNull, warn ''fetch error'' p)
      | Response st cth body \<Rightarrow>
          if \<not> status_ok st then (JNull, warn ''HTTP'' p)
          else
            let ct = toLowerCase (case cth of None \<Rightarrow> [] | Some h \<Rightarrow> h)
            in if \<not> str_includes ct ''application/json''
               then (JNull, warn ''non-JSON (maybe login redirect?)'' p)
               else (case body of
                       None \<Rightarrow> (JNull, warn ''fetch error'' p)
                     | Some data \<Rightarrow> (data, log ''OK'' p)))"

record client_defaults =
  pickup_address :: jv
  dropoff_address :: jv
  pickup_time :: jv
  notes_val :: jv
  pickup_city :: jv
  pickup_state :: jv
  dropoff_city :: jv
  dropoff_state :: jv
  source :: string

definition getClientDefaults :: "jv \<Rightarrow> client_defaults option" where
  "getClientDefaults d =
     (if \<not> truthy d then None
      else Some \<lparr>
        pickup_address = js_or (get_prop d ''pickup_address'') (JStr []),
        dropoff_address = js_or (get_prop d ''dropoff_address'') (JStr []),
        pickup_time = js_or (js_or (get_prop d ''pickup_time'') (get_prop d ''start_time'')) (JStr []),
        notes_val = js_or (get_prop d ''notes'') (JStr []),
        pickup_city = js_or (get_prop d ''pickup_city'') (JStr []),
        pickup_state = js_or (get_prop d ''pickup_state'') (JStr []),
        dropoff_city = js_or (get_prop d ''dropoff_city'') (JStr []),
        dropoff_state = js_or (get_prop d ''dropoff_state'') (JStr []),
        source = ''mini'' \<rparr>)"

text \<open>
  \<^verbatim>\<open>if (forceSet(el, v)) filled.push(name)\<close>, and the guarded form
  \<^verbatim>\<open>if (v && forceSet(el, v)) filled.push(name)\<close>.
\<close>

definition set_and_push :: "fieldkey \<Rightarrow> jv \<Rightarrow> string \<Rightarrow> page \<times> string list \<Rightarrow> page \<times> string list" where
  "set_and_push k v name pf =
     (case forceSet k v (fst pf) of
        (p', done) \<Rightarrow> (p', if done then snd pf @ [name] else snd pf))"

definition set_and_push_if :: "fieldkey \<Rightarrow> jv \<Rightarrow> string \<Rightarrow> page \<times> string list \<Rightarrow> page \<times> string list" where
  "set_and_push_if k v name pf = (if truthy v then set_and_push k v name pf else pf)"

text \<open>
  \<^verbatim>\<open>handleClientChange\<close> suspends once, at \<^verbatim>\<open>await getClientDefaults(clientId)\<close>.
  \<open>handleClientChange_enter\<close> is the code up to the moment \<^verbatim>\<open>fetch\<close> is called; it
  yields what the suspended call keeps: the URL and whether \<^verbatim>\<open>sp\<close> is an element.
  \<open>None\<close> is the early return on a non-numeric value.
\<close>

record pending =
  pend_url :: string
  pend_sp :: bool

definition handleClientChange_enter :: "page \<Rightarrow> page \<times> pending option" where
  "handleClientChange_enter p =
     (let raw = trim (client_value p)
      in if \<not> all_digits raw then (warn ''client id not numeric:'' p, None)
         else
           (case ensureSpinnerFor p of
              (p1, sp) \<Rightarrow>
                let p2 = showSpinner sp p1;
                    p3 = setDisabled True p2;
                    p4 = log ''fetching defaults for'' p3;
                    url = ''/service/api/client/'' @ raw @ ''/mini/''
                in (p4\<lparr>requests := requests p4 @ [url]\<rparr>, Some \<lparr>pend_url = url, pend_sp = sp\<rparr>)))"

text \<open>The rest of the \<^verbatim>\<open>try\<close> block, given what \<^verbatim>\<open>getClientDefaults\<close> returned;
  the second component is the \<^verbatim>\<open>filled\<close> array (\<open>None\<close> on the early return).\<close>

definition handleClientChange_try :: "client_defaults option \<Rightarrow> page \<Rightarrow> page \<times> string list option" where
  "handleClientChange_try dopt p =
     (case dopt of
        None \<Rightarrow> (p, None)
      | Some d \<Rightarrow>
          (case (set_and_push_if DState (dropoff_state d) ''dropoff_state''
                (set_and_push_if DCity (dropoff_city d) ''dropoff_city''
                (set_and_push_if PState (pickup_state d) ''pickup_state''
                (set_and_push_if PCity (pickup_city d) ''pickup_city''
                (set_and_push Notes (notes_val d) ''notes''
                (set_and_push Start (pickup_time d) ''start_time/pickup_time''
                (set_and_push Dropoff (dropoff_address d) ''dropoff_address''
                (set_and_push Pickup (pickup_address d) ''pickup_address'' (p, [])))))))))
           of (p', filled) \<Rightarrow>
             (log (''filled: '' @ (if join filled '', '' = [] then ''(none)'' else join filled '', '')) p',
              Some filled)))"

text \<open>The \<^verbatim>\<open>finally\<close> block.\<close>

definition handleClientChange_finally :: "bool \<Rightarrow> page \<Rightarrow> page" where
  "handleClientChange_finally sp p = setDisabled False (hideSpinner sp p)"

text \<open>The call resumed with the settled fetch: \<^verbatim>\<open>fetchJSON\<close>,
  \<^verbatim>\<open>getClientDefaults\<close>, the rest of the \<^verbatim>\<open>try\<close> block, then \<^verbatim>\<open>finally\<close>.\<close>

definition handleClientChange_resume :: "pending \<Rightarrow> response \<Rightarrow> page \<Rightarrow> page \<times> string list option" where
  "handleClientChange_resume pd r p =
     (case fetchJSON r p of
        (data, p1) \<Rightarrow>
          (case handleClientChange_try (getClientDefaults data) p1 of
             (p2, filled) \<Rightarrow> (handleClientChange_finally (pend_sp pd) p2, filled)))"

text \<open>What a test observes of a field: its value, if the field is on the page.\<close>

definition field_value :: "page \<Rightarrow> fieldkey \<Rightarrow> string option" where
  "field_value p k = map_option el_value (located p k)"

subsection \<open>The end-to-end scenario\<close>

text \<open>
  A page whose pickup address, dropoff address and notes fields are present and empty,
  with client 42 selected, and the response carrying the three defaults as the
  properties \<^verbatim>\<open>getClientDefaults\<close> reads.
\<close>

definition blank :: element where
  "blank = \<lparr>el_value = [], el_disabled = False\<rparr>"

definition scenario_page :: page where
  "scenario_page =
     \<lparr>debug = False, client_value = ''42'', has_holder = True, spinner = None,
      located = (\<lambda>k. None)(Pickup := Some blank, Dropoff := Some blank, Notes := Some blank),
      events = [], console = [], requests = [], gate_calls = []\<rparr>"

definition scenario_client :: jv where
  "scenario_client =
     JObj [(''pickup_address'', JStr ''12 Elm St''), (''dropoff_address'', JStr []),
           (''notes'', JStr ''VIP'')]"

definition scenario_response :: response where
  "scenario_response = Response 200 (Some ''application/json'') (Some scenario_client)"

text \<open>The nested shape of the other defaults endpoint, carrying the same client.\<close>

definition scenario_response_nested :: response where
  "scenario_response_nested =
     Response 200 (Some ''application/json'')
       (Some (JObj [(''ok'', JBool True), (''client'', scenario_client)]))"

text \<open>One whole call of \<^verbatim>\<open>handleClientChange\<close> with nothing running during its
  \<^verbatim>\<open>await\<close>: the fetch settles to \<open>r\<close>.\<close>

definition handleClientChange :: "response \<Rightarrow> page \<Rightarrow> page \<times> string list option" where
  "handleClientChange r p =
     (case handleClientChange_enter p of
        (p1, None) \<Rightarrow> (p1, None)
      | (p1, Some pd) \<Rightarrow> handleClientChange_resume pd r p1)"

subsection \<open>Two overlapping selections\<close>

text \<open>
  The select changes to \<open>a\<close> and then to \<open>b\<close> before the first fetch settles; the
  response to \<open>b\<close> arrives first, the response to \<open>a\<close> after it. \<open>after_second\<close> is
  the page once the response to \<open>b\<close> has been handled, \<open>overlapped\<close> the page once
  both have been. \<open>None\<close>: one of the two values did not pass the numeric test.
\<close>

definition both_entered :: "string \<Rightarrow> string \<Rightarrow> page \<Rightarrow> (pending \<times> pending \<times> page) option" where
  "both_entered a b p =
     (case handleClientChange_enter (p\<lparr>client_value := a\<rparr>) of
        (p1, None) \<Rightarrow> None
      | (p1, Some pda) \<Rightarrow>
          (case handleClientChange_enter (p1\<lparr>client_value := b\<rparr>) of
             (p2, None) \<Rightarrow> None
           | (p2, Some pdb) \<Rightarrow> Some (pda, pdb, p2)))"

definition after_second :: "string \<Rightarrow> string \<Rightarrow> response \<Rightarrow> page \<Rightarrow> page option" where
  "after_second a b rb p =
     (case both_entered a b p of
        None \<Rightarrow> None
      | Some (pda, pdb, p2) \<Rightarrow> Some (fst (handleClientChange_resume pdb rb p2)))"

definition overlapped :: "string \<Rightarrow> response \<Rightarrow> string \<Rightarrow> response \<Rightarrow> page \<Rightarrow> page option" where
  "overlapped a ra b rb p =
     (case both_entered a b p of
        None \<Rightarrow> None
      | Some (pda, pdb, p2) \<Rightarrow>
          Some (fst (handleClientChange_resume pda ra (fst (handleClientChange_resume pdb rb p2)))))"

definition address_response :: "string \<Rightarrow> response" where
  "address_response addr =
     Response 200 (Some ''application/json'') (Some (JObj [(''pickup_address'', JStr addr)]))"


section \<open>src/scheduler/static/add\_schedule\_defaults.js: fill if empty, with suggestions\<close>

text \<open>
  The form of this script: the \<^verbatim>\<open>#id_client\<close> input (\<open>None\<close> when the page has
  none), the six fields found by id, the \<^verbatim>\<open>list\<close> attribute of each, the datalists
  of the document by id, and the URLs fetched.
\<close>

type_synonym datalists = "string \<Rightarrow> string list option"

record form =
  client_input :: "string option"
  form_fields :: "fieldkey \<Rightarrow> element option"
  list_attr :: "fieldkey \<Rightarrow> string option"
  form_datalists :: datalists
  form_requests :: "string list"

text \<open>\<^verbatim>\<open>fetchClientDefaults\<close> once \<^verbatim>\<open>fetch\<close> has settled. Nothing is caught: a
  rejected \<^verbatim>\<open>fetch\<close>, a body that \<^verbatim>\<open>resp.json()\<close> rejects and a \<^verbatim>\<open>null\<close>
  body (\<^verbatim>\<open>json.ok\<close> throws) reject the call.\<close>

definition fetchClientDefaults :: "response \<Rightarrow> jv settled" where
  "fetchClientDefaults r =
     (case r of
        NetworkError \<Rightarrow> Rejected
      | Response st cth body \<Rightarrow>
          if \<not> status_ok st then Resolved JNull
          else (case body of
                  None \<Rightarrow> Rejected
                | Some json \<Rightarrow>
                    if nullish json then Rejected
                    else Resolved (if truthy (get_prop json ''ok'') then get_prop json ''client'' else JNull)))"

text \<open>\<^verbatim>\<open>if (el && !el.value) el.value = c.name || ''\<close>\<close>

definition fill_if_empty :: "fieldkey \<Rightarrow> string \<Rightarrow> jv \<Rightarrow> (fieldkey \<Rightarrow> element option) \<Rightarrow> (fieldkey \<Rightarrow> element option)" where
  "fill_if_empty k name c fs =
     (case fs k of
        None \<Rightarrow> fs
      | Some el \<Rightarrow>
          if el_value el = [] then fs(k := Some (el\<lparr>el_value := js_String (js_or (get_prop c name) (JStr []))\<rparr>))
          else fs)"

text \<open>The six fill-if-empty statements shared by \<^verbatim>\<open>onClientChange\<close> and
  \<^verbatim>\<open>applyClientDefaults\<close>, as one function of the fields.\<close>

definition six_fills :: "jv \<Rightarrow> (fieldkey \<Rightarrow> element option) \<Rightarrow> (fieldkey \<Rightarrow> element option)" where
  "six_fills c fs =
     fill_if_empty DState ''dropoff_state'' c
    (fill_if_empty DCity ''dropoff_city'' c
    (fill_if_empty Dropoff ''dropoff_address'' c
    (fill_if_empty PState ''pickup_state'' c
    (fill_if_empty PCity ''pickup_city'' c
    (fill_if_empty Pickup ''pickup_address'' c fs)))))"

text \<open>The options \<^verbatim>\<open>ensureDatalist\<close> creates: one per value that is truthy and not
  blank.\<close>

definition datalist_values :: "jv list \<Rightarrow> string list" where
  "datalist_values vs = map js_String (filter (\<lambda>v. truthy v \<and> trim (js_String v) \<noteq> []) vs)"

definition ensureDatalist :: "fieldkey \<Rightarrow> string \<Rightarrow> jv list \<Rightarrow> form \<Rightarrow> form" where
  "ensureDatalist k ident vs f =
     (case form_fields f k of
        None \<Rightarrow> f
      | Some el \<Rightarrow>
          f\<lparr>form_datalists := (form_datalists f)(ident := Some (datalist_values vs)),
            list_attr := (list_attr f)(k := Some ident)\<rparr>)"

text \<open>\<^verbatim>\<open>onClientChange\<close> up to its \<^verbatim>\<open>await\<close>: the client id it fetches for, if any.\<close>

definition onClientChange_enter :: "form \<Rightarrow> form \<times> string option" where
  "onClientChange_enter f =
     (case client_input f of
        None \<Rightarrow> (f, None)
      | Some v \<Rightarrow>
          if v \<noteq> [] \<and> all_digits v
          then (f\<lparr>form_requests := form_requests f @ [''/service/ajax/client/'' @ v @ ''/defaults/'']\<rparr>, Some v)
          else (f, None))"

text \<open>\<^verbatim>\<open>onClientChange\<close> resumed with the settled fetch.\<close>

definition onClientChange_resume :: "string \<Rightarrow> response \<Rightarrow> form \<Rightarrow> form settled" where
  "onClientChange_resume clientId r f =
     (case fetchClientDefaults r of
        Rejected \<Rightarrow> Rejected
      | Resolved c \<Rightarrow>
          if \<not> truthy c then Resolved f
          else
            let fs = fill_if_empty DState ''dropoff_state'' c
                    (fill_if_empty DCity ''dropoff_city'' c
                    (fill_if_empty Dropoff ''dropoff_address'' c
                    (fill_if_empty PState ''pickup_state'' c
                    (fill_if_empty PCity ''pickup_city'' c
                    (fill_if_empty Pickup ''pickup_address'' c (form_fields f))))));
                f1 = f\<lparr>form_fields := fs\<rparr>
            in Resolved
                (ensureDatalist DState (''dl_drop_state_'' @ clientId) [get_prop c ''dropoff_state'']
                (ensureDatalist DCity (''dl_drop_city_'' @ clientId) [get_prop c ''dropoff_city'']
                (ensureDatalist Dropoff (''dl_drop_addr_'' @ clientId) [get_prop c ''dropoff_address'']
                (ensureDatalist PState (''dl_pickup_state_'' @ clientId) [get_prop c ''pickup_state'']
                (ensureDatalist PCity (''dl_pickup_city_'' @ clientId) [get_prop c ''pickup_city'']
                (ensureDatalist Pickup (''dl_pickup_addr_'' @ clientId) [get_prop c ''pickup_address''] f1)))))))"

section \<open>src/scheduler/scheduler/admin\_client\_defaults.js: admin rows\<close>

text \<open>
  A row (an element matching \<^verbatim>\<open>.inline-related, .change-form\<close>): the value of its
  hidden autocomplete input and of its first client input (\<open>None\<close> when the row has
  none), the six fields found by name suffix with their \<^verbatim>\<open>list\<close> attributes, and
  the number of \<^verbatim>\<open>change\<close> listeners \<^verbatim>\<open>bindRow\<close> has registered on the row. Each
  call of \<^verbatim>\<open>bindRow\<close> passes a new closure to \<^verbatim>\<open>addEventListener\<close>, so each call
  adds a listener. Rows are taken as disjoint subtrees.
\<close>

record row =
  auto_hidden :: "string option"
  client_pk_input :: "string option"
  row_fields :: "fieldkey \<Rightarrow> element option"
  row_list_attr :: "fieldkey \<Rightarrow> string option"
  listeners :: nat

record admin_doc =
  rows :: "row list"
  doc_datalists :: datalists
  doc_requests :: "string list"

definition currentClientId :: "row \<Rightarrow> string option" where
  "currentClientId rw =
     (if (case auto_hidden rw of None \<Rightarrow> False | Some v \<Rightarrow> v \<noteq> []) then auto_hidden rw
      else if (case client_pk_input rw of None \<Rightarrow> False | Some v \<Rightarrow> v \<noteq> [] \<and> all_digits v)
           then client_pk_input rw
           else None)"

text \<open>\<^verbatim>\<open>applyClientDefaults\<close> up to its \<^verbatim>\<open>await\<close>: the URLs it fetches (none for an
  empty id).\<close>

definition applyClientDefaults_enter :: "string \<Rightarrow> string list" where
  "applyClientDefaults_enter clientId =
     (if clientId = [] then [] else [''/service/admin/ajax/client/'' @ clientId @ ''/defaults/''])"

definition row_ensureDatalist :: "fieldkey \<Rightarrow> string \<Rightarrow> jv list \<Rightarrow> row \<times> datalists \<Rightarrow> row \<times> datalists" where
  "row_ensureDatalist k ident vs rd =
     (case row_fields (fst rd) k of
        None \<Rightarrow> rd
      | Some el \<Rightarrow>
          ((fst rd)\<lparr>row_list_attr := (row_list_attr (fst rd))(k := Some ident)\<rparr>,
           (snd rd)(ident := Some (datalist_values vs))))"

definition six_fields :: "fieldkey list" where
  "six_fields = [Pickup, PCity, PState, Dropoff, DCity, DState]"

text \<open>
  \<^verbatim>\<open>applyClientDefaults\<close> resumed with the settled fetch; the status is not looked
  at. Everything thrown inside is caught and reported with \<^verbatim>\<open>console.warn\<close> (the
  last component): a rejected fetch, a body that does not parse, \<^verbatim>\<open>json.ok\<close> on
  \<^verbatim>\<open>null\<close>, and \<^verbatim>\<open>c.pickup_address\<close> on a missing \<^verbatim>\<open>client\<close>, which is
  evaluated as soon as one of the six fields is in the row and before anything is
  written.
\<close>

definition applyClientDefaults_resume :: "string \<Rightarrow> response \<Rightarrow> row \<times> datalists \<Rightarrow> (row \<times> datalists) \<times> bool" where
  "applyClientDefaults_resume clientId r rd =
     (case r of
        NetworkError \<Rightarrow> (rd, True)
      | Response st cth body \<Rightarrow>
          (case body of
             None \<Rightarrow> (rd, True)
           | Some json \<Rightarrow>
               if nullish json then (rd, True)
               else if \<not> truthy (get_prop json ''ok'') then (rd, False)
               else
                 let c = get_prop json ''client''
                 in if nullish c then (rd, list_ex (\<lambda>k. row_fields (fst rd) k \<noteq> None) six_fields)
                    else
                      let fs = fill_if_empty DState ''dropoff_state'' c
                              (fill_if_empty DCity ''dropoff_city'' c
                              (fill_if_empty Dropoff ''dropoff_address'' c
                              (fill_if_empty PState ''pickup_state'' c
                              (fill_if_empty PCity ''pickup_city'' c
                              (fill_if_empty Pickup ''pickup_address'' c (row_fields (fst rd)))))));
                          rd1 = ((fst rd)\<lparr>row_fields := fs\<rparr>, snd rd)
                      in ((row_ensureDatalist DState (''dl_drop_state_'' @ clientId) [get_prop c ''dropoff_state'']
                          (row_ensureDatalist DCity (''dl_drop_city_'' @ clientId) [get_prop c ''dropoff_city'']
                          (row_ensureDatalist Dropoff (''dl_drop_addr_'' @ clientId) [get_prop c ''dropoff_address'']
                          (row_ensureDatalist PState (''dl_pickup_state_'' @ clientId) [get_prop c ''pickup_state'']
                          (row_ensureDatalist PCity (''dl_pickup_city_'' @ clientId) [get_prop c ''pickup_city'']
                          (row_ensureDatalist Pickup (''dl_pickup_addr_'' @ clientId) [get_prop c ''pickup_address''] rd1)))))),
                          False)))"

text \<open>
  \<^verbatim>\<open>bindRow\<close>: the initial apply when the row already has a client, then one
  more \<^verbatim>\<open>change\<close> listener. The result is the row and the URLs fetched.
\<close>

definition bindRow :: "row \<Rightarrow> row \<times> string list" where
  "bindRow rw =
     (rw\<lparr>listeners := Suc (listeners rw)\<rparr>,
      (case currentClientId rw of None \<Rightarrow> [] | Some initialId \<Rightarrow> applyClientDefaults_enter initialId))"

text \<open>\<^verbatim>\<open>bindAll\<close>: \<^verbatim>\<open>bindRow\<close> on every row, in document order.\<close>

definition bindAll :: "admin_doc \<Rightarrow> admin_doc" where
  "bindAll doc =
     doc\<lparr>rows := map (\<lambda>rw. fst (bindRow rw)) (rows doc),
         doc_requests := doc_requests doc @ concat (map (\<lambda>rw. snd (bindRow rw)) (rows doc))\<rparr>"

text \<open>One registered listener handling a \<^verbatim>\<open>change\<close> event on the row: the URLs it
  fetches. \<open>target_matches\<close>: the target matches \<^verbatim>\<open>select, input, .admin-autocomplete\<close>.\<close>

definition row_listener :: "bool \<Rightarrow> row \<Rightarrow> string list" where
  "row_listener target_matches rw =
     (if target_matches
      then (case currentClientId rw of None \<Rightarrow> [] | Some cid \<Rightarrow> applyClientDefaults_enter cid)
      else [])"

text \<open>A \<^verbatim>\<open>change\<close> event reaching row \<open>i\<close>: every registered listener runs.\<close>

definition dispatch_change :: "nat \<Rightarrow> bool \<Rightarrow> admin_doc \<Rightarrow> admin_doc" where
  "dispatch_change i target_matches doc =
     (if i < length (rows doc)
      then doc\<lparr>doc_requests := doc_requests doc
              @ concat (replicate (listeners (rows doc ! i)) (row_listener target_matches (rows doc ! i)))\<rparr>
      else doc)"

section \<open>src/scheduler/static/scheduler/js/autofill\_client\_admin.js: the admin change listener\<close>

text \<open>
  The listener on \<^verbatim>\<open>document.body\<close>, seen from the row (\<^verbatim>\<open>el.closest(...)\<close>) of the
  select that changed; the row is a \<open>page\<close> whose \<open>client_value\<close> is the select's value
  and whose fields are those \<^verbatim>\<open>findField\<close> finds by id or name suffix.
\<close>

definition fetchMini :: "response \<Rightarrow> jv" where
  "fetchMini r =
     (case r of
        NetworkError \<Rightarrow> JNull
      | Response st cth body \<Rightarrow>
          if \<not> status_ok st then JNull
          else if \<not> str_includes (toLowerCase (case cth of None \<Rightarrow> [] | Some h \<Rightarrow> h)) ''application/json''
               then JNull
               else (case body of None \<Rightarrow> JNull | Some d \<Rightarrow> d))"

text \<open>\<^verbatim>\<open>set(el, v)\<close>: \<^verbatim>\<open>el.value = v || ""\<close>, then both events.\<close>

definition set_field :: "fieldkey \<Rightarrow> jv \<Rightarrow> page \<Rightarrow> page" where
  "set_field k v p =
     (case located p k of
        None \<Rightarrow> p
      | Some el \<Rightarrow>
          emit k ''change'' (emit k ''input''
            (p\<lparr>located := (located p)(k := Some (el\<lparr>el_value := js_String (js_or v (JStr []))\<rparr>))\<rparr>)))"

text \<open>The listener up to its \<^verbatim>\<open>await\<close>; \<open>isClient\<close> is the test on the target's tag,
  id and name. The result is the id fetched for, if any.\<close>

definition admin_listener_enter :: "bool \<Rightarrow> page \<Rightarrow> page \<times> string option" where
  "admin_listener_enter isClient p =
     (if \<not> isClient then (p, None)
      else if \<not> all_digits (client_value p) then (p, None)
      else (p\<lparr>requests := requests p @ [''/service/api/client/'' @ client_value p @ ''/mini/'']\<rparr>,
            Some (client_value p)))"

definition admin_listener_resume :: "response \<Rightarrow> page \<Rightarrow> page" where
  "admin_listener_resume r p =
     (let d = fetchMini r
      in if \<not> truthy d then p
         else set_field Notes (get_prop d ''notes'')
             (set_field Start (js_or (get_prop d ''pickup_time'') (get_prop d ''start_time''))
             (set_field Dropoff (get_prop d ''dropoff_address'')
             (set_field Pickup (get_prop d ''pickup_address'') p))))"

section \<open>src/scheduler/static/scheduler/client\_typeahead.js: the search box\<close>

text \<open>
  A search result carries an integer id and possibly a name. The select is a list of
  options with the index of the selected one and the events dispatched on it. It is a
  single-choice drop-down: when an option is inserted while none is selected, that
  option becomes the selected one, and \<^verbatim>\<open>select.value\<close> is the value of the selected
  option (empty when the select has no option).
\<close>

record item =
  item_id :: int
  item_name :: "string option"

record search_page =
  results :: "item list"
  has_more :: bool

type_synonym search_response = "search_page fetched"

record option_el =
  opt_value :: string
  opt_label :: string

record select_el =
  options :: "option_el list"
  selected :: "nat option"
  dispatched :: "string list"

definition select_value :: "select_el \<Rightarrow> string" where
  "select_value s =
     (case selected s of
        None \<Rightarrow> []
      | Some i \<Rightarrow> if i < length (options s) then opt_value (options s ! i) else [])"

definition appendChild :: "option_el \<Rightarrow> select_el \<Rightarrow> select_el" where
  "appendChild opt s =
     s\<lparr>options := options s @ [opt],
       selected := (case selected s of None \<Rightarrow> Some (length (options s)) | Some i \<Rightarrow> Some i)\<rparr>"

definition dispatchEvent :: "string \<Rightarrow> select_el \<Rightarrow> select_el" where
  "dispatchEvent type s = s\<lparr>dispatched := dispatched s @ [type]\<rparr>"

text \<open>The em dash and the ellipsis of the script's texts, as UTF-8 bytes.\<close>

definition em_dash :: string where
  "em_dash = [char_of (226::nat), char_of (128::nat), char_of (148::nat)]"

definition ellipsis :: string where
  "ellipsis = [char_of (226::nat), char_of (128::nat), char_of (166::nat)]"

definition placeholder :: option_el where
  "placeholder = \<lparr>opt_value = [], opt_label = em_dash @ '' Select client '' @ em_dash\<rparr>"

definition empty_page :: search_page where
  "empty_page = \<lparr>results = [], has_more = False\<rparr>"

text \<open>\<^verbatim>\<open>searchClients\<close> once \<^verbatim>\<open>fetch\<close> has settled. Nothing is caught here.\<close>

definition searchClients :: "search_response \<Rightarrow> search_page settled" where
  "searchClients r =
     (case r of
        NetworkError \<Rightarrow> Rejected
      | Response st cth body \<Rightarrow>
          if \<not> status_ok st then Resolved empty_page
          else if \<not> str_includes (toLowerCase (case cth of None \<Rightarrow> [] | Some h \<Rightarrow> h)) ''application/json''
               then Resolved empty_page
               else (case body of None \<Rightarrow> Rejected | Some pg \<Rightarrow> Resolved pg))"

text \<open>\<^verbatim>\<open>r.name || `Client #${r.id}`\<close>: an empty name counts as no name.\<close>

definition label_of :: "item \<Rightarrow> string" where
  "label_of r =
     (case item_name r of
        None \<Rightarrow> ''Client #'' @ dec_int (item_id r)
      | Some n \<Rightarrow> if n \<noteq> [] then n else ''Client #'' @ dec_int (item_id r))"

definition option_of :: "item \<Rightarrow> option_el" where
  "option_of r = \<lparr>opt_value = dec_int (item_id r), opt_label = label_of r\<rparr>"

text \<open>\<^verbatim>\<open>Array.from(select.options).find(...)\<close>, as the index of the first match.\<close>

fun find_index :: "('a \<Rightarrow> bool) \<Rightarrow> 'a list \<Rightarrow> nat option" where
  "find_index P [] = None"
| "find_index P (x # xs) = (if P x then Some 0 else map_option Suc (find_index P xs))"

text \<open>
  \<^verbatim>\<open>rebuildOptions(select, results, keepValue)\<close>. The clearing loop leaves no option
  and so none selected; \<^verbatim>\<open>opt.selected = true\<close> makes \<^verbatim>\<open>opt\<close> the selected option.
\<close>

definition rebuildOptions :: "select_el \<Rightarrow> item list \<Rightarrow> string option \<Rightarrow> select_el" where
  "rebuildOptions select rs keepValue =
     (let old = (case keepValue of None \<Rightarrow> select_value select | Some k \<Rightarrow> k);
          s1 = select\<lparr>options := [], selected := None\<rparr>;
          s2 = appendChild placeholder s1;
          s3 = foldl (\<lambda>s r. appendChild (option_of r) s) s2 rs;
          s4 = (if old \<noteq> []
                then (case find_index (\<lambda>opt. opt_value opt = old) (options s3) of
                        None \<Rightarrow> s3
                      | Some i \<Rightarrow> s3\<lparr>selected := Some i\<rparr>)
                else s3)
      in dispatchEvent ''change'' (dispatchEvent ''input'' s4))"


text \<open>
  The search box above the select. \<open>run_enter\<close> is the debounced handler up to its
  \<^verbatim>\<open>await\<close>: it yields the trimmed query and records the request (its \<^verbatim>\<open>q\<close>
  parameter, set only for a non-empty query, and its \<^verbatim>\<open>limit\<close>). \<open>run_resume\<close> is
  the rest, with the \<^verbatim>\<open>catch\<close> around it.
\<close>

record search_request =
  req_q :: "string option"
  req_limit :: "string option"

record typeahead =
  search_value :: string
  status_text :: string
  ui_select :: select_el
  search_requests :: "search_request list"

definition run_enter :: "typeahead \<Rightarrow> typeahead \<times> string" where
  "run_enter ui =
     (let q = trim (search_value ui)
      in (ui\<lparr>status_text := (if q \<noteq> [] then ''Searching'' @ ellipsis else []),
             search_requests := search_requests ui
               @ [\<lparr>req_q = (if q \<noteq> [] then Some q else None), req_limit = Some (dec_nat 20)\<rparr>]\<rparr>,
          q))"

definition run_resume :: "string \<Rightarrow> search_response \<Rightarrow> typeahead \<Rightarrow> typeahead" where
  "run_resume q r ui =
     (case searchClients r of
        Rejected \<Rightarrow> ui\<lparr>status_text := ''Search failed''\<rparr>
      | Resolved pg \<Rightarrow>
          ui\<lparr>ui_select := rebuildOptions (ui_select ui) (results pg) None,
             status_text :=
               (if q \<noteq> [] \<and> has_more pg
                then ''Showing '' @ dec_nat (length (results pg)) @ ''+ results'' @ ellipsis @ '' refine your search''
                else if q \<noteq> [] then ''Found '' @ dec_nat (length (results pg)) else [])\<rparr>)"

subsection \<open>The search round trip\<close>


definition select_with_7 :: select_el where
  "select_with_7 =
     \<lparr>options = [placeholder, \<lparr>opt_value = ''3'', opt_label = ''Ann Lee''\<rparr>,
                 \<lparr>opt_value = ''7'', opt_label = ''Jane Doe''\<rparr>],
      selected = Some 2, dispatched = []\<rparr>"


definition typeahead_with_7 :: typeahead where
  "typeahead_with_7 =
     \<lparr>search_value = ''Ann'', status_text = [], ui_select = select_with_7, search_requests = []\<rparr>"

subsection \<open>Inputs for the other scripts\<close>

text \<open>The scenario page after the operator has typed a pickup address.\<close>

definition edited_page :: page where
  "edited_page =
     scenario_page\<lparr>located := (located scenario_page)
        (Pickup := Some \<lparr>el_value = ''9 Oak Ave'', el_disabled = False\<rparr>)\<rparr>"

text \<open>The same fields on the form of add\_schedule\_defaults.js and in an admin row.\<close>

definition edited_form :: form where
  "edited_form =
     \<lparr>client_input = Some ''42'',
      form_fields = (\<lambda>k. None)(Pickup := Some \<lparr>el_value = ''9 Oak Ave'', el_disabled = False\<rparr>,
                                 Dropoff := Some blank),
      list_attr = (\<lambda>k. None), form_datalists = (\<lambda>i. None), form_requests = []\<rparr>"

definition edited_row :: row where
  "edited_row =
     \<lparr>auto_hidden = None, client_pk_input = Some ''42'',
      row_fields = (\<lambda>k. None)(Pickup := Some \<lparr>el_value = ''9 Oak Ave'', el_disabled = False\<rparr>,
                                Dropoff := Some blank),
      row_list_attr = (\<lambda>k. None), listeners = 0\<rparr>"

definition hidden_row :: row where
  "hidden_row = edited_row\<lparr>auto_hidden := Some ''abc'', client_pk_input := Some ''abc''\<rparr>"

definition cleared_row :: row where
  "cleared_row = edited_row\<lparr>auto_hidden := Some [], client_pk_input := Some ''n/a''\<rparr>"

definition one_row_doc :: admin_doc where
  "one_row_doc = \<lparr>rows = [edited_row], doc_datalists = (\<lambda>i. None), doc_requests = []\<rparr>"

definition elm_response :: response where
  "elm_response =
     Response 200 (Some ''application/json'')
       (Some (JObj [(''ok'', JBool True),
                    (''client'', JObj [(''pickup_address'', JStr ''12 Elm St''),
                                       (''dropoff_address'', JStr ''5 Pine Rd'')])]))"

definition ok_false_response :: response where
  "ok_false_response = Response 200 (Some ''application/json'') (Some (JObj [(''ok'', JBool False)]))"

definition login_page_response :: "'b fetched" where
  "login_page_response = Response 200 (Some ''text/html; charset=utf-8'') None"

section \<open>Properties of the spinner script\<close>

text \<open>\<^verbatim>\<open>trim\<close> on the values used below; the last two carry U+00A0 and
  U+2028, which \<^verbatim>\<open>trim\<close> strips like a space.\<close>

lemma trim_values:
  "trim [] = []"
  "trim ''42'' = ''42''"
  "trim ''1'' = ''1''"
  "trim ''2'' = ''2''"
  "trim ''n/a'' = ''n/a''"
  "trim '' 42 '' = ''42''"
  "trim (char_of (194::nat) # char_of (160::nat) # ''42'') = ''42''"
  "trim (''42'' @ [char_of (226::nat), char_of (128::nat), char_of (168::nat)]) = ''42''"
  by code_simp+

lemma gate_calls_forceSet: "gate_calls (fst (forceSet k v p)) = gate_calls p"
  by (simp add: forceSet_def emit_def Let_def split: option.split)

lemma gate_calls_set_and_push: "gate_calls (fst (set_and_push k v n pf)) = gate_calls (fst pf)"
  by (simp add: set_and_push_def split_beta gate_calls_forceSet)

lemma gate_calls_set_and_push_if: "gate_calls (fst (set_and_push_if k v n pf)) = gate_calls (fst pf)"
  by (simp add: set_and_push_if_def gate_calls_set_and_push)

lemma gate_calls_log: "gate_calls (log m p) = gate_calls p"
  by (simp add: log_def)

lemma gate_calls_warn: "gate_calls (warn m p) = gate_calls p"
  by (simp add: warn_def)

lemma gate_calls_try: "gate_calls (fst (handleClientChange_try d p)) = gate_calls p"
proof (cases d)
  case None
  then show ?thesis by (simp add: handleClientChange_try_def)
next
  case (Some dd)
  then show ?thesis
    by (simp add: handleClientChange_try_def gate_calls_log split_beta
          gate_calls_set_and_push gate_calls_set_and_push_if)
qed

lemma gate_calls_fetchJSON: "gate_calls (snd (fetchJSON r p)) = gate_calls p"
  by (simp add: fetchJSON_def Let_def gate_calls_log gate_calls_warn split: fetched.split option.split)

lemma gate_calls_finally:
  "gate_calls (handleClientChange_finally sp p) = gate_calls p @ [HideSpinner, SetDisabled False]"
  by (simp add: handleClientChange_finally_def setDisabled_def hideSpinner_def Let_def)

lemma gate_calls_resume:
  "gate_calls (fst (handleClientChange_resume pd r p)) = gate_calls p @ [HideSpinner, SetDisabled False]"
  by (simp add: handleClientChange_resume_def gate_calls_finally split_beta
        gate_calls_try gate_calls_fetchJSON)

lemma enabled_finally:
  "located (handleClientChange_finally sp p) k = Some el \<Longrightarrow> \<not> el_disabled el"
  by (auto simp add: handleClientChange_finally_def setDisabled_def)

lemma spinner_finally:
  "sp \<Longrightarrow> spinner (handleClientChange_finally sp p) = Some False"
  by (simp add: handleClientChange_finally_def setDisabled_def hideSpinner_def Let_def)


lemma enter_Some:
  assumes "handleClientChange_enter p = (p1, Some pd)"
  shows "all_digits (trim (client_value p))"
    and "p1 = (log ''fetching defaults for''
                 (setDisabled True (showSpinner (snd (ensureSpinnerFor p)) (fst (ensureSpinnerFor p)))))
               \<lparr>requests := requests (log ''fetching defaults for''
                 (setDisabled True (showSpinner (snd (ensureSpinnerFor p)) (fst (ensureSpinnerFor p)))))
                  @ [''/service/api/client/'' @ trim (client_value p) @ ''/mini/'']\<rparr>"
    and "pd = \<lparr>pend_url = ''/service/api/client/'' @ trim (client_value p) @ ''/mini/'',
               pend_sp = snd (ensureSpinnerFor p)\<rparr>"
  using assms
  by (simp_all add: handleClientChange_enter_def Let_def split_beta split: if_splits)

text \<open>
  Claim C3 (busy-gate balance). A call that gets past the numeric test shows the spinner
  and disables the located fields once, before the fetch is issued. When the fetch
  settles, whatever it settled to (defaults, a response that reads as absent, a body
  that does not parse, a network error) and whatever the page has become in between,
  the resumed call makes exactly one pair of exit calls, \<^verbatim>\<open>hideSpinner\<close> then
  \<^verbatim>\<open>setDisabled(fields, false)\<close>, after which the spinner is hidden and every located
  field is enabled.
\<close>

theorem busy_gate_balance:
  assumes "handleClientChange_enter p = (p1, Some pd)"
  shows "gate_calls p1 = gate_calls p @ [ShowSpinner, SetDisabled True]
       \<and> pend_sp pd = has_holder p
       \<and> (has_holder p \<longrightarrow> spinner p1 = Some True)
       \<and> (\<forall>k el. located p1 k = Some el \<longrightarrow> el_disabled el)
       \<and> (\<forall>r p'. gate_calls (fst (handleClientChange_resume pd r p'))
                     = gate_calls p' @ [HideSpinner, SetDisabled False]
              \<and> (has_holder p \<longrightarrow> spinner (fst (handleClientChange_resume pd r p')) = Some False)
              \<and> (\<forall>k el. located (fst (handleClientChange_resume pd r p')) k = Some el
                     \<longrightarrow> \<not> el_disabled el))"
proof -
  note e = enter_Some [OF assms]
  have sp: "pend_sp pd = has_holder p"
    by (simp add: e(3) ensureSpinnerFor_def split: option.split)
  have g: "gate_calls p1 = gate_calls p @ [ShowSpinner, SetDisabled True]"
    by (simp add: e(2) log_def setDisabled_def showSpinner_def Let_def ensureSpinnerFor_def
          split: option.split)
  have s: "has_holder p \<longrightarrow> spinner p1 = Some True"
    by (simp add: e(2) log_def setDisabled_def showSpinner_def Let_def ensureSpinnerFor_def
          split: option.split)
  have d: "\<forall>k el. located p1 k = Some el \<longrightarrow> el_disabled el"
    by (auto simp add: e(2) log_def setDisabled_def showSpinner_def Let_def ensureSpinnerFor_def
          split: option.split)
  have r: "\<And>r p'. gate_calls (fst (handleClientChange_resume pd r p'))
                     = gate_calls p' @ [HideSpinner, SetDisabled False]
              \<and> (has_holder p \<longrightarrow> spinner (fst (handleClientChange_resume pd r p')) = Some False)
              \<and> (\<forall>k el. located (fst (handleClientChange_resume pd r p')) k = Some el
                     \<longrightarrow> \<not> el_disabled el)"
  proof -
    fix r p'
    have a: "gate_calls (fst (handleClientChange_resume pd r p'))
                     = gate_calls p' @ [HideSpinner, SetDisabled False]"
      by (rule gate_calls_resume)
    have b: "has_holder p \<longrightarrow> spinner (fst (handleClientChange_resume pd r p')) = Some False"
      using sp by (simp add: handleClientChange_resume_def split_beta spinner_finally)
    have c: "\<forall>k el. located (fst (handleClientChange_resume pd r p')) k = Some el
                     \<longrightarrow> \<not> el_disabled el"
      by (auto simp add: handleClientChange_resume_def split_beta dest: enabled_finally)
    from a b c show "gate_calls (fst (handleClientChange_resume pd r p'))
                     = gate_calls p' @ [HideSpinner, SetDisabled False]
              \<and> (has_holder p \<longrightarrow> spinner (fst (handleClientChange_resume pd r p')) = Some False)
              \<and> (\<forall>k el. located (fst (handleClientChange_resume pd r p')) k = Some el
                     \<longrightarrow> \<not> el_disabled el)" by blast
  qed
  from sp g s d r show ?thesis by blast
qed

lemma scenario_enter:
  "handleClientChange_enter scenario_page =
     (fst (handleClientChange_enter scenario_page), Some (the (snd (handleClientChange_enter scenario_page))))"
  by (simp add: handleClientChange_enter_def scenario_page_def trim_values all_digits_def
        is_digit_def ensureSpinnerFor_def Let_def)

theorem busy_gate_balance_witness:
  "has_holder scenario_page
   \<and> located (fst (handleClientChange_enter scenario_page)) Pickup = Some \<lparr>el_value = [], el_disabled = True\<rparr>
   \<and> gate_calls (fst (handleClientChange_resume (the (snd (handleClientChange_enter scenario_page)))
         NetworkError (fst (handleClientChange_enter scenario_page))))
       = [ShowSpinner, SetDisabled True, HideSpinner, SetDisabled False]
   \<and> spinner (fst (handleClientChange_resume (the (snd (handleClientChange_enter scenario_page)))
         NetworkError (fst (handleClientChange_enter scenario_page)))) = Some False
   \<and> located (fst (handleClientChange_resume (the (snd (handleClientChange_enter scenario_page)))
         NetworkError (fst (handleClientChange_enter scenario_page)))) Pickup = Some \<lparr>el_value = [], el_disabled = False\<rparr>"
proof -
  have h: "has_holder scenario_page" by (simp add: scenario_page_def)
  have g0: "gate_calls scenario_page = []" by (simp add: scenario_page_def)
  have l: "located (fst (handleClientChange_enter scenario_page)) Pickup
             = Some \<lparr>el_value = [], el_disabled = True\<rparr>"
    by (simp add: handleClientChange_enter_def scenario_page_def trim_values all_digits_def
        is_digit_def ensureSpinnerFor_def Let_def showSpinner_def setDisabled_def log_def blank_def)
  have l2: "located (fst (handleClientChange_resume (the (snd (handleClientChange_enter scenario_page)))
         NetworkError (fst (handleClientChange_enter scenario_page)))) Pickup = Some \<lparr>el_value = [], el_disabled = False\<rparr>"
    using l
    by (simp add: handleClientChange_resume_def fetchJSON_def warn_def getClientDefaults_def
          handleClientChange_try_def handleClientChange_finally_def setDisabled_def hideSpinner_def Let_def)
  from busy_gate_balance [OF scenario_enter] h g0 l l2 show ?thesis by simp
qed

lemma located_forceSet:
  "located (fst (forceSet k v p)) k' =
     (if k' = k then map_option (\<lambda>el. el\<lparr>el_value := written v\<rparr>) (located p k) else located p k')"
  by (simp add: forceSet_def emit_def Let_def split: option.split)

lemma fst_set_and_push: "fst (set_and_push k v n pf) = fst (forceSet k v (fst pf))"
  by (simp add: set_and_push_def split_beta)

lemma snd_set_and_push:
  "snd (set_and_push k v n pf) = snd pf @ (if located (fst pf) k = None then [] else [n])"
  by (simp add: set_and_push_def split_beta forceSet_def Let_def split: option.split)

lemma located_set_and_push:
  "located (fst (set_and_push k v n pf)) k' =
     (if k' = k then map_option (\<lambda>el. el\<lparr>el_value := written v\<rparr>) (located (fst pf) k)
      else located (fst pf) k')"
  by (simp add: fst_set_and_push located_forceSet)

lemma located_set_and_push_if:
  "located (fst (set_and_push_if k v n pf)) k' =
     (if k' = k \<and> truthy v then map_option (\<lambda>el. el\<lparr>el_value := written v\<rparr>) (located (fst pf) k)
      else located (fst pf) k')"
  by (simp add: set_and_push_if_def located_set_and_push)

lemma snd_set_and_push_if:
  "snd (set_and_push_if k v n pf) =
     snd pf @ (if truthy v \<and> located (fst pf) k \<noteq> None then [n] else [])"
  by (simp add: set_and_push_if_def snd_set_and_push)

lemma located_log: "located (log m p) = located p"
  by (simp add: log_def)

lemma located_warn: "located (warn m p) = located p"
  by (simp add: warn_def)

lemma located_fetchJSON: "located (snd (fetchJSON r p)) = located p"
  by (simp add: fetchJSON_def Let_def located_log located_warn split: fetched.split option.split)

lemma fetchJSON_data: "fst (fetchJSON r p) = fst (fetchJSON r p')"
  by (simp add: fetchJSON_def Let_def split: fetched.split option.split)

lemma field_value_finally: "field_value (handleClientChange_finally sp p) k = field_value p k"
  by (simp add: field_value_def handleClientChange_finally_def setDisabled_def hideSpinner_def Let_def
        option.map_comp comp_def)

lemma field_value_try_None: "field_value (fst (handleClientChange_try None p)) k = field_value p k"
  by (simp add: handleClientChange_try_def)

lemma field_value_try_forced:
  "field_value (fst (handleClientChange_try (Some d) p)) Pickup
     = (if located p Pickup = None then None else Some (written (pickup_address d)))"
  "field_value (fst (handleClientChange_try (Some d) p)) Dropoff
     = (if located p Dropoff = None then None else Some (written (dropoff_address d)))"
  "field_value (fst (handleClientChange_try (Some d) p)) Start
     = (if located p Start = None then None else Some (written (pickup_time d)))"
  "field_value (fst (handleClientChange_try (Some d) p)) Notes
     = (if located p Notes = None then None else Some (written (notes_val d)))"
  by (simp_all add: field_value_def handleClientChange_try_def split_beta located_log
        located_set_and_push located_set_and_push_if option.map_comp comp_def split del: if_split)
     (simp_all split: option.split)

lemma filled_try:
  "snd (handleClientChange_try (Some d) p) =
     Some ((if located p Pickup = None then [] else [''pickup_address''])
         @ (if located p Dropoff = None then [] else [''dropoff_address''])
         @ (if located p Start = None then [] else [''start_time/pickup_time''])
         @ (if located p Notes = None then [] else [''notes''])
         @ (if truthy (pickup_city d) \<and> located p PCity \<noteq> None then [''pickup_city''] else [])
         @ (if truthy (pickup_state d) \<and> located p PState \<noteq> None then [''pickup_state''] else [])
         @ (if truthy (dropoff_city d) \<and> located p DCity \<noteq> None then [''dropoff_city''] else [])
         @ (if truthy (dropoff_state d) \<and> located p DState \<noteq> None then [''dropoff_state''] else []))"
  by (simp add: handleClientChange_try_def split_beta snd_set_and_push snd_set_and_push_if
        located_set_and_push located_set_and_push_if split del: if_split)


lemma field_value_resume_None:
  "getClientDefaults (fst (fetchJSON r p)) = None \<Longrightarrow>
     field_value (fst (handleClientChange_resume pd r p)) k = field_value p k"
  by (simp add: handleClientChange_resume_def split_beta field_value_finally field_value_try_None)
     (simp add: field_value_def located_fetchJSON)

lemma field_value_resume_Some:
  assumes "getClientDefaults (fst (fetchJSON r p)) = Some d"
  shows "field_value (fst (handleClientChange_resume pd r p)) Pickup
           = (if located p Pickup = None then None else Some (written (pickup_address d)))"
    and "field_value (fst (handleClientChange_resume pd r p)) Dropoff
           = (if located p Dropoff = None then None else Some (written (dropoff_address d)))"
    and "field_value (fst (handleClientChange_resume pd r p)) Start
           = (if located p Start = None then None else Some (written (pickup_time d)))"
    and "field_value (fst (handleClientChange_resume pd r p)) Notes
           = (if located p Notes = None then None else Some (written (notes_val d)))"
  using assms
  by (simp_all add: handleClientChange_resume_def split_beta field_value_finally
        field_value_try_forced located_fetchJSON)

lemma filled_resume:
  "snd (handleClientChange_resume pd r p)
     = snd (handleClientChange_try (getClientDefaults (fst (fetchJSON r p))) (snd (fetchJSON r p)))"
  by (simp add: handleClientChange_resume_def split_beta)

lemma located_resume_None:
  "(located (fst (handleClientChange_resume pd r p)) k = None) = (located p k = None)"
proof (cases "getClientDefaults (fst (fetchJSON r p))")
  case None
  then show ?thesis
    by (simp add: handleClientChange_resume_def split_beta handleClientChange_finally_def
          setDisabled_def hideSpinner_def Let_def handleClientChange_try_def located_fetchJSON)
next
  case (Some d)
  then show ?thesis
    by (simp add: handleClientChange_resume_def split_beta handleClientChange_finally_def
          setDisabled_def hideSpinner_def Let_def handleClientChange_try_def located_fetchJSON
          located_log located_set_and_push located_set_and_push_if)
qed

lemma located_ensureSpinnerFor: "located (fst (ensureSpinnerFor p)) = located p"
  by (simp add: ensureSpinnerFor_def split: option.split)

lemma located_enter:
  "located (fst (handleClientChange_enter p)) k
     = (if all_digits (trim (client_value p))
        then map_option (\<lambda>el. el\<lparr>el_disabled := True\<rparr>) (located p k) else located p k)"
  by (simp add: handleClientChange_enter_def Let_def split_beta located_warn located_log
        setDisabled_def showSpinner_def located_ensureSpinnerFor)

lemma located_enter_None:
  "(located (fst (handleClientChange_enter p)) k = None) = (located p k = None)"
  by (simp add: located_enter)

lemma snd_enter:
  "snd (handleClientChange_enter p)
     = (if all_digits (trim (client_value p))
        then Some \<lparr>pend_url = ''/service/api/client/'' @ trim (client_value p) @ ''/mini/'',
                   pend_sp = snd (ensureSpinnerFor p)\<rparr>
        else None)"
  by (simp add: handleClientChange_enter_def Let_def split_beta)

lemma both_entered_Some:
  assumes "both_entered a b p = Some (pda, pdb, p2)"
  shows "(located p2 k = None) = (located p k = None)"
proof -
  from assms have p2: "p2 = fst (handleClientChange_enter
                    ((fst (handleClientChange_enter (p\<lparr>client_value := a\<rparr>)))\<lparr>client_value := b\<rparr>))"
    by (auto simp add: both_entered_def split: prod.splits option.splits)
  show ?thesis
    by (simp add: p2 located_enter_None)
qed

lemma scenario_digits: "trim ''42'' = ''42''" "all_digits ''42''"
  by (simp_all add: trim_values all_digits_def is_digit_def)

lemma scenario_defaults:
  "fetchJSON scenario_response p = (scenario_client, log ''OK'' p)"
  "getClientDefaults scenario_client =
     Some \<lparr>pickup_address = JStr ''12 Elm St'', dropoff_address = JStr [], pickup_time = JStr [],
           notes_val = JStr ''VIP'', pickup_city = JStr [], pickup_state = JStr [],
           dropoff_city = JStr [], dropoff_state = JStr [], source = ''mini''\<rparr>"
  by (simp_all add: fetchJSON_def scenario_response_def status_ok_def toLowerCase_def lower_char_def
        getClientDefaults_def scenario_client_def js_or_def)

text \<open>
  Claim C5, as amended (end-to-end scenario). On a page with client 42 selected, empty
  pickup-address and dropoff-address fields and a notes field, when the endpoint
  answers with the client's record itself, \<^verbatim>\<open>{pickup_address: "12 Elm St",
  dropoff_address: "", notes: "VIP"}\<close>, one call of \<^verbatim>\<open>handleClientChange\<close> leaves
  the pickup address at \<^verbatim>\<open>12 Elm St\<close>, the dropoff address empty and the notes at
  \<^verbatim>\<open>VIP\<close>; the \<^verbatim>\<open>filled\<close> list names every field that \<^verbatim>\<open>forceSet\<close> found on
  the page, whether or not its value changed: pickup address, dropoff address, the
  start time when that field is on the page, and notes.
\<close>

theorem end_to_end_scenario:
  assumes "client_value p = ''42''"
    and "field_value p Pickup = Some []"
    and "field_value p Dropoff = Some []"
    and "located p Notes \<noteq> None"
  shows "field_value (fst (handleClientChange scenario_response p)) Pickup = Some ''12 Elm St''
       \<and> field_value (fst (handleClientChange scenario_response p)) Dropoff = Some []
       \<and> field_value (fst (handleClientChange scenario_response p)) Notes = Some ''VIP''
       \<and> snd (handleClientChange scenario_response p)
           = Some ([''pickup_address'', ''dropoff_address'']
                   @ (if located p Start = None then [] else [''start_time/pickup_time''])
                   @ [''notes''])"
proof -
  let ?e = "handleClientChange_enter p"
  let ?pd = "\<lparr>pend_url = ''/service/api/client/42/mini/'', pend_sp = snd (ensureSpinnerFor p)\<rparr>"
  have s: "snd ?e = Some ?pd"
    by (simp add: snd_enter assms(1) scenario_digits)
  have h: "handleClientChange scenario_response p
             = handleClientChange_resume ?pd scenario_response (fst ?e)"
    using s by (simp add: handleClientChange_def split_beta)
  have g: "getClientDefaults (fst (fetchJSON scenario_response (fst ?e)))
             = getClientDefaults scenario_client"
    by (simp add: scenario_defaults(1))
  note d = scenario_defaults(2)
  have l: "located p Pickup \<noteq> None" "located p Dropoff \<noteq> None"
    using assms(2,3) by (auto simp add: field_value_def)
  have v1: "field_value (fst (handleClientChange scenario_response p)) Pickup = Some ''12 Elm St''"
    using l by (simp add: h field_value_resume_Some(1) [OF g [unfolded d]] located_enter_None written_def)
  have v2: "field_value (fst (handleClientChange scenario_response p)) Dropoff = Some []"
    using l by (simp add: h field_value_resume_Some(2) [OF g [unfolded d]] located_enter_None written_def)
  have v3: "field_value (fst (handleClientChange scenario_response p)) Notes = Some ''VIP''"
    using assms(4) by (simp add: h field_value_resume_Some(4) [OF g [unfolded d]] located_enter_None written_def)
  have f: "snd (handleClientChange scenario_response p)
           = Some ([''pickup_address'', ''dropoff_address'']
                   @ (if located p Start = None then [] else [''start_time/pickup_time''])
                   @ [''notes''])"
    using l assms(4)
    by (simp add: h filled_resume scenario_defaults filled_try located_log located_enter_None)
  from v1 v2 v3 f show ?thesis by blast
qed


lemma scenario_page_facts:
  "client_value scenario_page = ''42''"
  "field_value scenario_page Pickup = Some []"
  "field_value scenario_page Dropoff = Some []"
  "located scenario_page Notes \<noteq> None"
  "located scenario_page Start = None"
  "located scenario_page Pickup \<noteq> None"
  by (simp_all add: scenario_page_def field_value_def blank_def)

theorem end_to_end_scenario_witness:
  "client_value scenario_page = ''42''
   \<and> field_value scenario_page Pickup = Some []
   \<and> field_value scenario_page Dropoff = Some []
   \<and> located scenario_page Notes \<noteq> None
   \<and> field_value (fst (handleClientChange scenario_response scenario_page)) Pickup = Some ''12 Elm St''
   \<and> field_value (fst (handleClientChange scenario_response scenario_page)) Dropoff = Some []
   \<and> field_value (fst (handleClientChange scenario_response scenario_page)) Notes = Some ''VIP''
   \<and> snd (handleClientChange scenario_response scenario_page)
        = Some [''pickup_address'', ''dropoff_address'', ''notes'']"
  using end_to_end_scenario [OF scenario_page_facts(1-4)] scenario_page_facts
  by simp

lemma nested_defaults:
  "fetchJSON scenario_response_nested p
     = (JObj [(''ok'', JBool True), (''client'', scenario_client)], log ''OK'' p)"
  "getClientDefaults (JObj [(''ok'', JBool True), (''client'', scenario_client)]) =
     Some \<lparr>pickup_address = JStr [], dropoff_address = JStr [], pickup_time = JStr [],
           notes_val = JStr [], pickup_city = JStr [], pickup_state = JStr [],
           dropoff_city = JStr [], dropoff_state = JStr [], source = ''mini''\<rparr>"
  by (simp_all add: fetchJSON_def scenario_response_nested_def status_ok_def toLowerCase_def
        lower_char_def getClientDefaults_def js_or_def)

lemma handleClientChange_scenario:
  "handleClientChange r scenario_page
     = handleClientChange_resume
         \<lparr>pend_url = ''/service/api/client/42/mini/'', pend_sp = snd (ensureSpinnerFor scenario_page)\<rparr>
         r (fst (handleClientChange_enter scenario_page))"
  by (simp add: handleClientChange_def split_beta snd_enter scenario_page_facts(1) scenario_digits)

theorem end_to_end_scenario_counterexample:
  "snd (handleClientChange scenario_response scenario_page) \<noteq> Some [''pickup_address'', ''notes'']
   \<and> snd (handleClientChange scenario_response_nested scenario_page) \<noteq> Some [''pickup_address'', ''notes'']
   \<and> field_value (fst (handleClientChange scenario_response_nested scenario_page)) Pickup
        \<noteq> Some ''12 Elm St''"
proof -
  have a: "snd (handleClientChange scenario_response scenario_page)
             = Some [''pickup_address'', ''dropoff_address'', ''notes'']"
    by (simp add: handleClientChange_scenario filled_resume scenario_defaults filled_try located_log
          located_enter_None)
       (simp add: scenario_page_def)
  have b: "snd (handleClientChange scenario_response_nested scenario_page)
             = Some [''pickup_address'', ''dropoff_address'', ''notes'']"
    by (simp add: handleClientChange_scenario filled_resume nested_defaults filled_try located_log
          located_enter_None)
       (simp add: scenario_page_def)
  have g: "getClientDefaults (fst (fetchJSON scenario_response_nested
              (fst (handleClientChange_enter scenario_page))))
            = Some \<lparr>pickup_address = JStr [], dropoff_address = JStr [], pickup_time = JStr [],
           notes_val = JStr [], pickup_city = JStr [], pickup_state = JStr [],
           dropoff_city = JStr [], dropoff_state = JStr [], source = ''mini''\<rparr>"
    by (simp add: nested_defaults)
  have c: "field_value (fst (handleClientChange scenario_response_nested scenario_page)) Pickup = Some []"
    by (simp add: handleClientChange_scenario field_value_resume_Some(1) [OF g] located_enter_None
          scenario_page_facts written_def)
  from a b c show ?thesis by simp
qed

lemma located_set_field:
  "located (set_field k v p) k' =
     (if k' = k then map_option (\<lambda>el. el\<lparr>el_value := js_String (js_or v (JStr []))\<rparr>) (located p k)
      else located p k')"
  by (simp add: set_field_def emit_def split: option.split)

lemma admin_listener_applies:
  assumes "truthy (fetchMini r)"
  shows "field_value (admin_listener_resume r p) Pickup
           = (if located p Pickup = None then None
              else Some (js_String (js_or (get_prop (fetchMini r) ''pickup_address'') (JStr []))))"
    and "field_value (admin_listener_resume r p) Dropoff
           = (if located p Dropoff = None then None
              else Some (js_String (js_or (get_prop (fetchMini r) ''dropoff_address'') (JStr []))))"
    and "field_value (admin_listener_resume r p) Notes
           = (if located p Notes = None then None
              else Some (js_String (js_or (get_prop (fetchMini r) ''notes'') (JStr []))))"
  using assms
  by (simp_all add: admin_listener_resume_def Let_def field_value_def located_set_field
        option.map_comp comp_def split del: if_split)
     (simp_all split: option.split)

lemma admin_listener_absent:
  "\<not> truthy (fetchMini r) \<Longrightarrow> admin_listener_resume r p = p"
  by (simp add: admin_listener_resume_def)

lemma fetchMini_address: "fetchMini (address_response addr) = JObj [(''pickup_address'', JStr addr)]"
  by (simp add: fetchMini_def address_response_def status_ok_def toLowerCase_def lower_char_def)

lemma located_admin_listener_None:
  "(located (admin_listener_resume r p) k = None) = (located p k = None)"
  by (simp add: admin_listener_resume_def Let_def located_set_field)

text \<open>
  Claim C1, as amended (overlapping selections). The script keeps no fetch epoch: a
  response is applied when it arrives. When the select changes to \<open>a\<close> and then to
  \<open>b\<close>, and the response to \<open>a\<close> arrives after the response to \<open>b\<close>, then: if
  the late response to \<open>a\<close> yields defaults, the pickup-address, dropoff-address,
  start-time and notes fields on the page end with the values of \<open>a\<close>'s response; if
  it yields none, every field keeps the value it had once \<open>b\<close>'s response was handled.
  The admin change listener behaves alike: a late response that carries a record is
  written over what the earlier one left, one that carries none changes nothing.
\<close>

theorem last_arrival_wins:
  assumes "overlapped a ra b rb p = Some q"
    and "after_second a b rb p = Some qb"
  shows "(\<forall>d. getClientDefaults (fst (fetchJSON ra p)) = Some d \<longrightarrow>
            (located p Pickup \<noteq> None \<longrightarrow> field_value q Pickup = Some (written (pickup_address d)))
          \<and> (located p Dropoff \<noteq> None \<longrightarrow> field_value q Dropoff = Some (written (dropoff_address d)))
          \<and> (located p Start \<noteq> None \<longrightarrow> field_value q Start = Some (written (pickup_time d)))
          \<and> (located p Notes \<noteq> None \<longrightarrow> field_value q Notes = Some (written (notes_val d))))
       \<and> (getClientDefaults (fst (fetchJSON ra p)) = None \<longrightarrow> (\<forall>k. field_value q k = field_value qb k))
       \<and> (truthy (fetchMini ra) \<and> located pa Pickup \<noteq> None \<longrightarrow>
            field_value (admin_listener_resume ra (admin_listener_resume rb pa)) Pickup
              = Some (js_String (js_or (get_prop (fetchMini ra) ''pickup_address'') (JStr []))))
       \<and> (\<not> truthy (fetchMini ra) \<longrightarrow>
            admin_listener_resume ra (admin_listener_resume rb pa) = admin_listener_resume rb pa)"
proof -
  have adm1: "truthy (fetchMini ra) \<and> located pa Pickup \<noteq> None \<longrightarrow>
            field_value (admin_listener_resume ra (admin_listener_resume rb pa)) Pickup
              = Some (js_String (js_or (get_prop (fetchMini ra) ''pickup_address'') (JStr [])))"
    by (simp add: admin_listener_applies(1) located_admin_listener_None)
  have adm2: "\<not> truthy (fetchMini ra) \<longrightarrow>
            admin_listener_resume ra (admin_listener_resume rb pa) = admin_listener_resume rb pa"
    by (simp add: admin_listener_absent)
  from assms(1) obtain pda pdb p2 where
    be: "both_entered a b p = Some (pda, pdb, p2)"
    by (auto simp add: overlapped_def split: option.splits)
  from be assms(2) have qb: "qb = fst (handleClientChange_resume pdb rb p2)"
    by (simp add: after_second_def)
  from be assms(1) have q: "q = fst (handleClientChange_resume pda ra qb)"
    by (simp add: overlapped_def qb)
  have loc: "\<And>k. (located qb k = None) = (located p k = None)"
    by (simp add: qb located_resume_None both_entered_Some [OF be])
  have data: "fst (fetchJSON ra qb) = fst (fetchJSON ra p)"
    by (rule fetchJSON_data)
  have main: "(\<forall>d. getClientDefaults (fst (fetchJSON ra p)) = Some d \<longrightarrow>
            (located p Pickup \<noteq> None \<longrightarrow> field_value q Pickup = Some (written (pickup_address d)))
          \<and> (located p Dropoff \<noteq> None \<longrightarrow> field_value q Dropoff = Some (written (dropoff_address d)))
          \<and> (located p Start \<noteq> None \<longrightarrow> field_value q Start = Some (written (pickup_time d)))
          \<and> (located p Notes \<noteq> None \<longrightarrow> field_value q Notes = Some (written (notes_val d))))
       \<and> (getClientDefaults (fst (fetchJSON ra p)) = None \<longrightarrow> (\<forall>k. field_value q k = field_value qb k))"
  proof (intro conjI allI impI)
    fix d assume g: "getClientDefaults (fst (fetchJSON ra p)) = Some d"
    then have g': "getClientDefaults (fst (fetchJSON ra qb)) = Some d"
      by (simp add: data)
    { assume "located p Pickup \<noteq> None"
      then show "field_value q Pickup = Some (written (pickup_address d))"
        by (simp add: q field_value_resume_Some(1) [OF g'] loc) }
    { assume "located p Dropoff \<noteq> None"
      then show "field_value q Dropoff = Some (written (dropoff_address d))"
        by (simp add: q field_value_resume_Some(2) [OF g'] loc) }
    { assume "located p Start \<noteq> None"
      then show "field_value q Start = Some (written (pickup_time d))"
        by (simp add: q field_value_resume_Some(3) [OF g'] loc) }
    { assume "located p Notes \<noteq> None"
      then show "field_value q Notes = Some (written (notes_val d))"
        by (simp add: q field_value_resume_Some(4) [OF g'] loc) }
  next
    fix k assume "getClientDefaults (fst (fetchJSON ra p)) = None"
    then have "getClientDefaults (fst (fetchJSON ra qb)) = None"
      by (simp add: data)
    then show "field_value q k = field_value qb k"
      by (simp add: q field_value_resume_None)
  qed
  note m1 = conjunct1 [OF main] and m2 = conjunct2 [OF main]
  show ?thesis
    by (intro conjI) (rule m1 m2 adm1 adm2)+
qed

lemma address_defaults:
  "fetchJSON (address_response addr) p = (JObj [(''pickup_address'', JStr addr)], log ''OK'' p)"
  "getClientDefaults (JObj [(''pickup_address'', JStr addr)]) =
     Some \<lparr>pickup_address = js_or (JStr addr) (JStr []), dropoff_address = JStr [], pickup_time = JStr [],
           notes_val = JStr [], pickup_city = JStr [], pickup_state = JStr [],
           dropoff_city = JStr [], dropoff_state = JStr [], source = ''mini''\<rparr>"
  by (simp_all add: fetchJSON_def address_response_def status_ok_def toLowerCase_def
        lower_char_def getClientDefaults_def js_or_def)

lemma both_entered_digits:
  assumes "all_digits (trim a)" and "all_digits (trim b)"
  shows "both_entered a b p \<noteq> None"
proof -
  have a: "snd (handleClientChange_enter (p\<lparr>client_value := a\<rparr>)) \<noteq> None"
    using assms(1) by (simp add: snd_enter)
  have b: "\<And>p1. snd (handleClientChange_enter (p1\<lparr>client_value := b\<rparr>)) \<noteq> None"
    using assms(2) by (simp add: snd_enter)
  obtain p1 pda where e1: "handleClientChange_enter (p\<lparr>client_value := a\<rparr>) = (p1, Some pda)"
    using a by (cases "handleClientChange_enter (p\<lparr>client_value := a\<rparr>)") auto
  obtain p2 pdb where e2: "handleClientChange_enter (p1\<lparr>client_value := b\<rparr>) = (p2, Some pdb)"
    using b [of p1] by (cases "handleClientChange_enter (p1\<lparr>client_value := b\<rparr>)") auto
  show ?thesis
    by (simp add: both_entered_def e1 e2)
qed

lemma overlapped_Some:
  assumes "all_digits (trim a)" and "all_digits (trim b)"
  shows "overlapped a ra b rb p = Some (the (overlapped a ra b rb p))"
    and "after_second a b rb p = Some (the (after_second a b rb p))"
  using both_entered_digits [OF assms, of p]
  by (auto simp add: overlapped_def after_second_def split: option.splits)

lemma race_digits: "all_digits (trim ''1'')" "all_digits (trim ''2'')"
  by (simp_all add: trim_values all_digits_def is_digit_def)

lemma field_value_after_second:
  assumes "all_digits (trim a)" and "all_digits (trim b)"
    and "getClientDefaults (fst (fetchJSON rb p)) = Some d"
    and "located p Pickup \<noteq> None"
  shows "field_value (the (after_second a b rb p)) Pickup = Some (written (pickup_address d))"
proof -
  obtain pda pdb p2 where be: "both_entered a b p = Some (pda, pdb, p2)"
    using both_entered_digits [OF assms(1,2), of p] by auto
  have g: "getClientDefaults (fst (fetchJSON rb p2)) = Some d"
    using assms(3) fetchJSON_data [of rb p2 p] by simp
  show ?thesis
    using assms(4)
    by (simp add: after_second_def be field_value_resume_Some(1) [OF g] both_entered_Some [OF be])
qed

theorem last_arrival_wins_witness:
  "overlapped ''1'' (address_response ''1 A St'') ''2'' (address_response ''2 B St'') scenario_page \<noteq> None
   \<and> getClientDefaults (fst (fetchJSON (address_response ''1 A St'') scenario_page)) \<noteq> None
   \<and> located scenario_page Pickup \<noteq> None
   \<and> field_value (the (overlapped ''1'' (address_response ''1 A St'') ''2''
                          (address_response ''2 B St'') scenario_page)) Pickup = Some ''1 A St''
   \<and> field_value (the (overlapped ''1'' NetworkError ''2''
                          (address_response ''2 B St'') scenario_page)) Pickup = Some ''2 B St''
   \<and> truthy (fetchMini (address_response ''1 A St''))
   \<and> field_value (admin_listener_resume (address_response ''1 A St'')
                     (admin_listener_resume (address_response ''2 B St'') scenario_page)) Pickup
        = Some ''1 A St''
   \<and> \<not> truthy (fetchMini NetworkError)
   \<and> field_value (admin_listener_resume NetworkError
                     (admin_listener_resume (address_response ''2 B St'') scenario_page)) Pickup
        = Some ''2 B St''"
proof -
  let ?ra = "address_response ''1 A St''" and ?rb = "address_response ''2 B St''"
  note o1 = overlapped_Some(1) [OF race_digits, where p = scenario_page and rb = ?rb]
  note o2 = overlapped_Some(2) [OF race_digits, where p = scenario_page and rb = ?rb]
  have g: "getClientDefaults (fst (fetchJSON ?ra scenario_page))
             = Some \<lparr>pickup_address = JStr ''1 A St'', dropoff_address = JStr [], pickup_time = JStr [],
                 notes_val = JStr [], pickup_city = JStr [], pickup_state = JStr [],
                 dropoff_city = JStr [], dropoff_state = JStr [], source = ''mini''\<rparr>"
    by (simp add: address_defaults js_or_def)
  have gb: "getClientDefaults (fst (fetchJSON ?rb scenario_page))
             = Some \<lparr>pickup_address = JStr ''2 B St'', dropoff_address = JStr [], pickup_time = JStr [],
                 notes_val = JStr [], pickup_city = JStr [], pickup_state = JStr [],
                 dropoff_city = JStr [], dropoff_state = JStr [], source = ''mini''\<rparr>"
    by (simp add: address_defaults js_or_def)
  have n: "getClientDefaults (fst (fetchJSON NetworkError scenario_page)) = None"
    by (simp add: fetchJSON_def getClientDefaults_def)
  have b: "field_value (the (after_second ''1'' ''2'' ?rb scenario_page)) Pickup = Some ''2 B St''"
    using field_value_after_second [OF race_digits gb scenario_page_facts(6)]
    by (simp add: written_def)
  from last_arrival_wins [OF o1 [where ra = ?ra] o2] g scenario_page_facts(6)
  have 1: "field_value (the (overlapped ''1'' ?ra ''2'' ?rb scenario_page)) Pickup = Some ''1 A St''"
    by (simp add: written_def)
  from last_arrival_wins [OF o1 [where ra = NetworkError] o2] n b
  have 2: "field_value (the (overlapped ''1'' NetworkError ''2'' ?rb scenario_page)) Pickup = Some ''2 B St''"
    by simp
  from o1 [where ra = ?ra] have 0: "overlapped ''1'' ?ra ''2'' ?rb scenario_page \<noteq> None"
    by (metis option.distinct(1))
  have ta: "truthy (fetchMini ?ra)" "truthy (fetchMini ?rb)" "\<not> truthy (fetchMini NetworkError)"
    by (simp_all add: fetchMini_address) (simp add: fetchMini_def)
  from last_arrival_wins [OF o1 [where ra = ?ra] o2, where pa = scenario_page] ta scenario_page_facts(6)
  have 3: "field_value (admin_listener_resume ?ra (admin_listener_resume ?rb scenario_page)) Pickup
             = Some ''1 A St''"
    by (simp add: fetchMini_address js_or_def)
  have 4: "field_value (admin_listener_resume ?rb scenario_page) Pickup = Some ''2 B St''"
    using scenario_page_facts(6)
    by (simp add: admin_listener_applies(1) [OF ta(2)] fetchMini_address js_or_def)
  from last_arrival_wins [OF o1 [where ra = NetworkError] o2, where pa = scenario_page] ta(3) 4
  have 5: "field_value (admin_listener_resume NetworkError (admin_listener_resume ?rb scenario_page)) Pickup
             = Some ''2 B St''"
    by simp
  have g': "getClientDefaults (fst (fetchJSON ?ra scenario_page)) \<noteq> None"
    by (simp add: g)
  note l = scenario_page_facts(6)
  show ?thesis
    by (intro conjI) (rule 0 g' l 1 2 ta(1) 3 ta(3) 5)+
qed

theorem stale_response_counterexample:
  "overlapped ''1'' (address_response ''1 A St'') ''2'' (address_response ''2 B St'') scenario_page \<noteq> None
   \<and> field_value (the (after_second ''1'' ''2'' (address_response ''2 B St'') scenario_page)) Pickup
        = Some ''2 B St''
   \<and> field_value (the (overlapped ''1'' (address_response ''1 A St'') ''2''
                          (address_response ''2 B St'') scenario_page)) Pickup = Some ''1 A St''"
proof -
  let ?ra = "address_response ''1 A St''" and ?rb = "address_response ''2 B St''"
  obtain pda pdb p2 where be: "both_entered ''1'' ''2'' scenario_page = Some (pda, pdb, p2)"
    using both_entered_digits [OF race_digits, of scenario_page] by auto
  have gb: "getClientDefaults (fst (fetchJSON ?rb scenario_page))
             = Some \<lparr>pickup_address = JStr ''2 B St'', dropoff_address = JStr [], pickup_time = JStr [],
                 notes_val = JStr [], pickup_city = JStr [], pickup_state = JStr [],
                 dropoff_city = JStr [], dropoff_state = JStr [], source = ''mini''\<rparr>"
    by (simp add: address_defaults js_or_def)
  have b: "field_value (the (after_second ''1'' ''2'' ?rb scenario_page)) Pickup = Some ''2 B St''"
    using field_value_after_second [OF race_digits gb scenario_page_facts(6)]
    by (simp add: written_def)
  let ?qb = "fst (handleClientChange_resume pdb ?rb p2)"
  have ga: "getClientDefaults (fst (fetchJSON ?ra ?qb))
             = Some \<lparr>pickup_address = JStr ''1 A St'', dropoff_address = JStr [], pickup_time = JStr [],
                 notes_val = JStr [], pickup_city = JStr [], pickup_state = JStr [],
                 dropoff_city = JStr [], dropoff_state = JStr [], source = ''mini''\<rparr>"
    by (simp add: address_defaults js_or_def)
  have l: "located ?qb Pickup \<noteq> None"
    using scenario_page_facts(6)
    by (simp add: located_resume_None both_entered_Some [OF be])
  have a: "field_value (the (overlapped ''1'' ?ra ''2'' ?rb scenario_page)) Pickup = Some ''1 A St''"
    using l by (simp add: overlapped_def be field_value_resume_Some(1) [OF ga] written_def)
  have 0: "overlapped ''1'' ?ra ''2'' ?rb scenario_page \<noteq> None"
    by (simp add: overlapped_def be)
  from 0 a b show ?thesis by simp
qed

section \<open>Properties of the search box\<close>















lemma run_resume_rebuilds:
  "searchClients r = Resolved pg \<Longrightarrow>
     ui_select (run_resume q r ui) = rebuildOptions (ui_select ui) (results pg) None"
  by (simp add: run_resume_def)




text \<open>
  Claim C8, as amended (search failures). \<^verbatim>\<open>searchClients\<close> resolves to the empty
  page for a status outside 200..299 and for a content type that does not contain
  \<^verbatim>\<open>application/json\<close>. A network error rejects the call; its caller \<^verbatim>\<open>run\<close>
  catches the rejection, sets the status line to \<^verbatim>\<open>Search failed\<close> and leaves the
  select as it was.
\<close>

theorem search_failures:
  "(\<not> status_ok st \<longrightarrow> searchClients (Response st cth body) = Resolved empty_page)
   \<and> (\<not> str_includes (toLowerCase (case cth of None \<Rightarrow> [] | Some h \<Rightarrow> h)) ''application/json''
        \<longrightarrow> searchClients (Response st cth body) = Resolved empty_page)
   \<and> searchClients NetworkError = Rejected
   \<and> run_resume q NetworkError ui = ui\<lparr>status_text := ''Search failed''\<rparr>"
  by (simp add: searchClients_def run_resume_def)

lemma html_not_json:
  "\<not> str_includes (toLowerCase ''text/html; charset=utf-8'') ''application/json''"
  by (simp add: toLowerCase_def lower_char_def)

theorem search_failures_witness:
  "\<not> status_ok 500
   \<and> searchClients (Response 500 None None) = Resolved empty_page
   \<and> searchClients login_page_response = Resolved empty_page
   \<and> ui_select (run_resume ''Ann'' NetworkError typeahead_with_7) = select_with_7
   \<and> status_text (run_resume ''Ann'' NetworkError typeahead_with_7) = ''Search failed''"
proof -
  have a: "\<not> status_ok 500" by (simp add: status_ok_def)
  note t1 = search_failures [of 500 None None "''Ann''" typeahead_with_7]
  note t2 = search_failures [of 200 "Some ''text/html; charset=utf-8''" None "''Ann''" typeahead_with_7]
  from t1 a have 1: "searchClients (Response 500 None None) = Resolved empty_page" by simp
  from t2 html_not_json have 2: "searchClients login_page_response = Resolved empty_page"
    by (simp add: login_page_response_def)
  from t1 have 3: "run_resume ''Ann'' NetworkError typeahead_with_7
                     = typeahead_with_7\<lparr>status_text := ''Search failed''\<rparr>" by simp
  from a 1 2 3 show ?thesis by (simp add: typeahead_with_7_def)
qed

theorem search_network_error_counterexample:
  "searchClients NetworkError \<noteq> Resolved empty_page"
  by (simp add: searchClients_def)

section \<open>Properties of the fill-if-empty scripts\<close>

lemma fill_if_empty_at:
  "fill_if_empty k' name c fs k =
     (if k = k'
      then map_option (\<lambda>el. if el_value el = []
                             then el\<lparr>el_value := js_String (js_or (get_prop c name) (JStr []))\<rparr>
                             else el) (fs k)
      else fs k)"
  by (simp add: fill_if_empty_def split: option.split)

lemma fill_if_empty_kept:
  "fs k = Some el \<Longrightarrow> el_value el \<noteq> [] \<Longrightarrow> fill_if_empty k' name c fs k = Some el"
  by (cases "k = k'") (auto simp add: fill_if_empty_at)

lemma fill_if_empty_absent: "fs k = None \<Longrightarrow> fill_if_empty k' name c fs k = None"
  by (cases "k = k'") (auto simp add: fill_if_empty_at)

lemma form_fields_ensureDatalist: "form_fields (ensureDatalist k ident vs f) = form_fields f"
  by (simp add: ensureDatalist_def split: option.split)

lemma row_fields_ensureDatalist: "row_fields (fst (row_ensureDatalist k ident vs rd)) = row_fields (fst rd)"
  by (simp add: row_ensureDatalist_def split: option.split)

lemma six_fills_kept:
  "fs k = Some el \<Longrightarrow> el_value el \<noteq> [] \<Longrightarrow> six_fills c fs k = Some el"
  by (simp add: six_fills_def fill_if_empty_kept)

lemma six_fills_absent: "fs k = None \<Longrightarrow> six_fills c fs k = None"
  by (simp add: six_fills_def fill_if_empty_absent)

lemma form_fields_resume:
  "onClientChange_resume cid r f = Resolved f' \<Longrightarrow>
     form_fields f' = form_fields f \<or> (\<exists>c. form_fields f' = six_fills c (form_fields f))"
  by (auto simp add: onClientChange_resume_def Let_def form_fields_ensureDatalist six_fills_def
        split: settled.splits if_splits)

lemma row_fields_resume:
  "row_fields (fst (fst (applyClientDefaults_resume cid r rd))) = row_fields (fst rd)
   \<or> (\<exists>c. row_fields (fst (fst (applyClientDefaults_resume cid r rd))) = six_fills c (row_fields (fst rd)))"
  by (auto simp add: applyClientDefaults_resume_def Let_def row_fields_ensureDatalist six_fills_def
        split: fetched.splits option.splits)

lemma field_value_forceSet:
  "located p k = Some el \<Longrightarrow> field_value (fst (forceSet k v p)) k = Some (written v)"
  by (simp add: field_value_def located_forceSet)

text \<open>
  Claim C2, as amended (fill if empty). \<^verbatim>\<open>onClientChange\<close> of
  add\_schedule\_defaults.js and \<^verbatim>\<open>applyClientDefaults\<close> of the admin script leave a
  field whose value is not empty exactly as it was, whatever the response, and add no
  field: they write only to fields whose value is the empty string. \<^verbatim>\<open>forceSet\<close> of
  the spinner script writes the fetched value to a field that is on the page whatever
  the field holds.
\<close>

theorem fill_if_empty_only:
  "(case onClientChange_resume cid r f of
      Rejected \<Rightarrow> True
    | Resolved f' \<Rightarrow>
        (\<forall>k el. form_fields f k = Some el \<and> el_value el \<noteq> [] \<longrightarrow> form_fields f' k = Some el)
      \<and> (\<forall>k. form_fields f k = None \<longrightarrow> form_fields f' k = None))
   \<and> (\<forall>k el. row_fields (fst rd) k = Some el \<and> el_value el \<noteq> []
         \<longrightarrow> row_fields (fst (fst (applyClientDefaults_resume cid r rd))) k = Some el)
   \<and> (\<forall>k. row_fields (fst rd) k = None
         \<longrightarrow> row_fields (fst (fst (applyClientDefaults_resume cid r rd))) k = None)
   \<and> (\<forall>k el v. located p k = Some el \<longrightarrow> field_value (fst (forceSet k v p)) k = Some (written v))"
proof -
  have a: "case onClientChange_resume cid r f of
      Rejected \<Rightarrow> True
    | Resolved f' \<Rightarrow>
        (\<forall>k el. form_fields f k = Some el \<and> el_value el \<noteq> [] \<longrightarrow> form_fields f' k = Some el)
      \<and> (\<forall>k. form_fields f k = None \<longrightarrow> form_fields f' k = None)"
  proof (cases "onClientChange_resume cid r f")
    case Rejected
    then show ?thesis by simp
  next
    case (Resolved f')
    from form_fields_resume [OF Resolved] show ?thesis
      by (auto simp add: Resolved six_fills_kept six_fills_absent)
  qed
  have b: "\<forall>k el. row_fields (fst rd) k = Some el \<and> el_value el \<noteq> []
         \<longrightarrow> row_fields (fst (fst (applyClientDefaults_resume cid r rd))) k = Some el"
    using row_fields_resume [of cid r rd] by (auto simp add: six_fills_kept)
  have c: "\<forall>k. row_fields (fst rd) k = None
         \<longrightarrow> row_fields (fst (fst (applyClientDefaults_resume cid r rd))) k = None"
    using row_fields_resume [of cid r rd] by (auto simp add: six_fills_absent)
  have d: "\<forall>k el v. located p k = Some el \<longrightarrow> field_value (fst (forceSet k v p)) k = Some (written v)"
    by (simp add: field_value_forceSet)
  from a b c d show ?thesis by blast
qed

lemma elm_client:
  "fetchClientDefaults elm_response
     = Resolved (JObj [(''pickup_address'', JStr ''12 Elm St''), (''dropoff_address'', JStr ''5 Pine Rd'')])"
  by (simp add: fetchClientDefaults_def elm_response_def status_ok_def)


theorem fill_if_empty_only_witness:
  "form_fields edited_form Pickup = Some \<lparr>el_value = ''9 Oak Ave'', el_disabled = False\<rparr>
   \<and> (case onClientChange_resume ''42'' elm_response edited_form of
         Rejected \<Rightarrow> False
       | Resolved f' \<Rightarrow>
           form_fields f' Pickup = Some \<lparr>el_value = ''9 Oak Ave'', el_disabled = False\<rparr>
         \<and> form_fields f' Dropoff = Some \<lparr>el_value = ''5 Pine Rd'', el_disabled = False\<rparr>
         \<and> form_fields f' Notes = None)
   \<and> row_fields edited_row Pickup = Some \<lparr>el_value = ''9 Oak Ave'', el_disabled = False\<rparr>
   \<and> row_fields (fst (fst (applyClientDefaults_resume ''42'' elm_response (edited_row, \<lambda>i. None)))) Pickup
        = Some \<lparr>el_value = ''9 Oak Ave'', el_disabled = False\<rparr>
   \<and> row_fields (fst (fst (applyClientDefaults_resume ''42'' elm_response (edited_row, \<lambda>i. None)))) Notes
        = None
   \<and> located edited_page Pickup = Some \<lparr>el_value = ''9 Oak Ave'', el_disabled = False\<rparr>
   \<and> field_value (fst (forceSet Pickup (JStr ''12 Elm St'') edited_page)) Pickup = Some ''12 Elm St''"
proof -
  note t = fill_if_empty_only [where cid = "''42''" and r = elm_response and f = edited_form
                 and rd = "(edited_row, \<lambda>i. None)" and p = edited_page]
  have f0: "form_fields edited_form Pickup = Some \<lparr>el_value = ''9 Oak Ave'', el_disabled = False\<rparr>"
    "form_fields edited_form Notes = None"
    by (simp_all add: edited_form_def)
  have r0: "row_fields edited_row Pickup = Some \<lparr>el_value = ''9 Oak Ave'', el_disabled = False\<rparr>"
    "row_fields edited_row Notes = None"
    by (simp_all add: edited_row_def)
  have p0: "located edited_page Pickup = Some \<lparr>el_value = ''9 Oak Ave'', el_disabled = False\<rparr>"
    by (simp add: edited_page_def)
  obtain f' where e: "onClientChange_resume ''42'' elm_response edited_form = Resolved f'"
    by (simp add: onClientChange_resume_def elm_client)
  from e have d: "form_fields f' Dropoff = Some \<lparr>el_value = ''5 Pine Rd'', el_disabled = False\<rparr>"
    by (auto simp add: onClientChange_resume_def elm_client Let_def form_fields_ensureDatalist
          fill_if_empty_at edited_form_def blank_def js_or_def)
  from t e f0 have k: "form_fields f' Pickup = Some \<lparr>el_value = ''9 Oak Ave'', el_disabled = False\<rparr>"
    "form_fields f' Notes = None"
    by simp_all
  from t r0 have rk:
    "row_fields (fst (fst (applyClientDefaults_resume ''42'' elm_response (edited_row, \<lambda>i. None)))) Pickup
        = Some \<lparr>el_value = ''9 Oak Ave'', el_disabled = False\<rparr>"
    "row_fields (fst (fst (applyClientDefaults_resume ''42'' elm_response (edited_row, \<lambda>i. None)))) Notes
        = None"
    by simp_all
  from t p0 have fk: "field_value (fst (forceSet Pickup (JStr ''12 Elm St'') edited_page)) Pickup
                        = Some ''12 Elm St''"
    by (simp add: written_def)
  from f0 r0 p0 d k rk fk show ?thesis by (simp add: e)
qed

lemma edited_page_facts:
  "client_value edited_page = ''42''"
  "located edited_page Pickup \<noteq> None"
  "field_value edited_page Pickup = Some ''9 Oak Ave''"
  by (simp_all add: edited_page_def scenario_page_def field_value_def)

theorem manual_edit_counterexample:
  "field_value edited_page Pickup = Some ''9 Oak Ave''
   \<and> field_value (fst (handleClientChange scenario_response edited_page)) Pickup = Some ''12 Elm St''"
proof -
  let ?e = "handleClientChange_enter edited_page"
  let ?pd = "\<lparr>pend_url = ''/service/api/client/42/mini/'', pend_sp = snd (ensureSpinnerFor edited_page)\<rparr>"
  have s: "snd ?e = Some ?pd"
    by (simp add: snd_enter edited_page_facts(1) scenario_digits)
  have h: "handleClientChange scenario_response edited_page
             = handleClientChange_resume ?pd scenario_response (fst ?e)"
    using s by (simp add: handleClientChange_def split_beta)
  have g: "getClientDefaults (fst (fetchJSON scenario_response (fst ?e)))
             = getClientDefaults scenario_client"
    by (simp add: scenario_defaults(1))
  have "field_value (fst (handleClientChange scenario_response edited_page)) Pickup = Some ''12 Elm St''"
    using edited_page_facts(2)
    by (simp add: h field_value_resume_Some(1) [OF g [unfolded scenario_defaults(2)]]
          located_enter_None written_def)
  with edited_page_facts(3) show ?thesis by simp
qed

section \<open>Properties of the defaults wrappers\<close>

lemma fetchJSON_absent:
  "fst (fetchJSON NetworkError p) = JNull"
  "\<not> status_ok st \<Longrightarrow> fst (fetchJSON (Response st cth body) p) = JNull"
  "\<not> str_includes (toLowerCase (case cth of None \<Rightarrow> [] | Some h \<Rightarrow> h)) ''application/json''
     \<Longrightarrow> fst (fetchJSON (Response st cth body) p) = JNull"
  "fst (fetchJSON (Response st cth None) p) = JNull"
  by (simp_all add: fetchJSON_def Let_def)

lemma fetchJSON_data_ok:
  "status_ok st \<Longrightarrow>
   str_includes (toLowerCase (case cth of None \<Rightarrow> [] | Some h \<Rightarrow> h)) ''application/json'' \<Longrightarrow>
   fst (fetchJSON (Response st cth (Some d)) p) = d"
  by (simp add: fetchJSON_def Let_def)

lemma fetchJSON_falsy:
  "\<not> truthy d \<Longrightarrow> \<not> truthy (fst (fetchJSON (Response st cth (Some d)) p))"
  by (simp add: fetchJSON_def Let_def)

text \<open>
  Claim C4, as amended (the defaults wrappers). \<^verbatim>\<open>getClientDefaults\<close> over
  \<^verbatim>\<open>fetchJSON\<close> always returns, with a record or with nothing: a network error, a
  status outside 200..299, a content type that is not JSON, a body that does not parse
  and a falsy body give nothing; any other body is normalised property by property, no
  \<^verbatim>\<open>ok\<close> flag being looked at. \<^verbatim>\<open>fetchClientDefaults\<close> gives nothing for a status
  outside 200..299 and for a parsed body whose \<^verbatim>\<open>ok\<close> is false or missing.
  \<^verbatim>\<open>applyClientDefaults\<close> catches a network error and a body that does not parse, and
  returns early on an \<^verbatim>\<open>ok\<close> that is false or missing; in all three the row is left
  as it was.
\<close>

theorem defaults_wrapper_outcomes:
  "getClientDefaults (fst (fetchJSON NetworkError p)) = None
   \<and> (\<not> status_ok st \<longrightarrow> getClientDefaults (fst (fetchJSON (Response st cth body) p)) = None)
   \<and> (\<not> str_includes (toLowerCase (case cth of None \<Rightarrow> [] | Some h \<Rightarrow> h)) ''application/json''
        \<longrightarrow> getClientDefaults (fst (fetchJSON (Response st cth body) p)) = None)
   \<and> getClientDefaults (fst (fetchJSON (Response st cth None) p)) = None
   \<and> (\<not> truthy d \<longrightarrow> getClientDefaults (fst (fetchJSON (Response st cth (Some d)) p)) = None)
   \<and> (status_ok st
        \<and> str_includes (toLowerCase (case cth of None \<Rightarrow> [] | Some h \<Rightarrow> h)) ''application/json''
        \<and> truthy d
        \<longrightarrow> getClientDefaults (fst (fetchJSON (Response st cth (Some d)) p)) = getClientDefaults d
          \<and> getClientDefaults d \<noteq> None)
   \<and> (\<not> status_ok st \<longrightarrow> fetchClientDefaults (Response st cth body) = Resolved JNull)
   \<and> (status_ok st \<and> \<not> nullish d \<and> \<not> truthy (get_prop d ''ok'')
        \<longrightarrow> fetchClientDefaults (Response st cth (Some d)) = Resolved JNull)
   \<and> applyClientDefaults_resume cid NetworkError rd = (rd, True)
   \<and> applyClientDefaults_resume cid (Response st cth None) rd = (rd, True)
   \<and> (\<not> nullish d \<and> \<not> truthy (get_prop d ''ok'')
        \<longrightarrow> applyClientDefaults_resume cid (Response st cth (Some d)) rd = (rd, False))"
proof -
  have 1: "getClientDefaults (fst (fetchJSON NetworkError p)) = None"
    by (simp add: fetchJSON_absent getClientDefaults_def)
  have 2: "\<not> status_ok st \<longrightarrow> getClientDefaults (fst (fetchJSON (Response st cth body) p)) = None"
    by (simp add: fetchJSON_absent getClientDefaults_def)
  have 3: "\<not> str_includes (toLowerCase (case cth of None \<Rightarrow> [] | Some h \<Rightarrow> h)) ''application/json''
        \<longrightarrow> getClientDefaults (fst (fetchJSON (Response st cth body) p)) = None"
    by (simp add: fetchJSON_absent getClientDefaults_def)
  have 4: "getClientDefaults (fst (fetchJSON (Response st cth None) p)) = None"
    by (simp add: fetchJSON_absent getClientDefaults_def)
  have 5: "\<not> truthy d \<longrightarrow> getClientDefaults (fst (fetchJSON (Response st cth (Some d)) p)) = None"
    using fetchJSON_falsy [of d st cth p] by (simp add: getClientDefaults_def)
  have 6: "status_ok st
        \<and> str_includes (toLowerCase (case cth of None \<Rightarrow> [] | Some h \<Rightarrow> h)) ''application/json''
        \<and> truthy d
        \<longrightarrow> getClientDefaults (fst (fetchJSON (Response st cth (Some d)) p)) = getClientDefaults d
          \<and> getClientDefaults d \<noteq> None"
    by (simp add: fetchJSON_data_ok getClientDefaults_def)
  have 7: "\<not> status_ok st \<longrightarrow> fetchClientDefaults (Response st cth body) = Resolved JNull"
    by (simp add: fetchClientDefaults_def)
  have 8: "status_ok st \<and> \<not> nullish d \<and> \<not> truthy (get_prop d ''ok'')
        \<longrightarrow> fetchClientDefaults (Response st cth (Some d)) = Resolved JNull"
    by (simp add: fetchClientDefaults_def)
  have 9: "applyClientDefaults_resume cid NetworkError rd = (rd, True)"
    "applyClientDefaults_resume cid (Response st cth None) rd = (rd, True)"
    "\<not> nullish d \<and> \<not> truthy (get_prop d ''ok'')
        \<longrightarrow> applyClientDefaults_resume cid (Response st cth (Some d)) rd = (rd, False)"
    by (simp_all add: applyClientDefaults_resume_def)
  from 1 2 3 4 5 6 7 8 9 show ?thesis by blast
qed

lemma json_ct: "str_includes (toLowerCase ''application/json'') ''application/json''"
  by (simp add: toLowerCase_def lower_char_def)

lemma ok_false_facts:
  "truthy (JObj [(''ok'', JBool False)])"
  "\<not> nullish (JObj [(''ok'', JBool False)])"
  "\<not> truthy (get_prop (JObj [(''ok'', JBool False)]) ''ok'')"
  by simp_all

theorem defaults_wrapper_outcomes_witness:
  "\<not> status_ok 500 \<and> status_ok 200
   \<and> getClientDefaults (fst (fetchJSON (Response 500 (Some ''application/json'') (Some scenario_client))
                              scenario_page)) = None
   \<and> getClientDefaults (fst (fetchJSON login_page_response scenario_page)) = None
   \<and> getClientDefaults (fst (fetchJSON (Response 200 (Some ''application/json'') (Some (JStr []))) scenario_page))
        = None
   \<and> getClientDefaults (fst (fetchJSON ok_false_response scenario_page))
        = getClientDefaults (JObj [(''ok'', JBool False)])
   \<and> fetchClientDefaults (Response 500 (Some ''application/json'') (Some scenario_client)) = Resolved JNull
   \<and> fetchClientDefaults ok_false_response = Resolved JNull
   \<and> applyClientDefaults_resume ''42'' ok_false_response (edited_row, \<lambda>i. None)
        = ((edited_row, \<lambda>i. None), False)"
proof -
  have s: "\<not> status_ok 500" "status_ok 200" by (simp_all add: status_ok_def)
  note t1 = defaults_wrapper_outcomes [where st = 500 and cth = "Some ''application/json''"
      and body = "Some scenario_client" and p = scenario_page]
  note t2 = defaults_wrapper_outcomes [where st = 200 and cth = "Some ''text/html; charset=utf-8''"
      and body = None and p = scenario_page]
  note t3 = defaults_wrapper_outcomes [where st = 200 and cth = "Some ''application/json''"
      and d = "JStr []" and p = scenario_page]
  note t4 = defaults_wrapper_outcomes [where st = 200 and cth = "Some ''application/json''"
      and d = "JObj [(''ok'', JBool False)]" and p = scenario_page and cid = "''42''"
      and rd = "(edited_row, \<lambda>i. None)"]
  from t1 s have 1: "getClientDefaults (fst (fetchJSON (Response 500 (Some ''application/json'')
      (Some scenario_client)) scenario_page)) = None"
    "fetchClientDefaults (Response 500 (Some ''application/json'') (Some scenario_client)) = Resolved JNull"
    by simp_all
  from t2 html_not_json have 2: "getClientDefaults (fst (fetchJSON login_page_response scenario_page)) = None"
    by (simp add: login_page_response_def)
  from t3 have 3: "getClientDefaults (fst (fetchJSON (Response 200 (Some ''application/json'')
      (Some (JStr []))) scenario_page)) = None"
    by simp
  from t4 s json_ct ok_false_facts
  have 4: "getClientDefaults (fst (fetchJSON ok_false_response scenario_page))
        = getClientDefaults (JObj [(''ok'', JBool False)])"
    "fetchClientDefaults ok_false_response = Resolved JNull"
    "applyClientDefaults_resume ''42'' ok_false_response (edited_row, \<lambda>i. None)
        = ((edited_row, \<lambda>i. None), False)"
    by (simp_all add: ok_false_response_def)
  from s 1 2 3 4 show ?thesis by blast
qed

theorem ok_false_counterexample:
  "getClientDefaults (fst (fetchJSON ok_false_response scenario_page))
     = Some \<lparr>pickup_address = JStr [], dropoff_address = JStr [], pickup_time = JStr [],
             notes_val = JStr [], pickup_city = JStr [], pickup_state = JStr [],
             dropoff_city = JStr [], dropoff_state = JStr [], source = ''mini''\<rparr>"
  by (simp add: fetchJSON_def ok_false_response_def status_ok_def toLowerCase_def lower_char_def
        getClientDefaults_def js_or_def)

lemma fetchClientDefaults_rejects:
  "fetchClientDefaults NetworkError = Rejected"
  "status_ok st \<Longrightarrow> fetchClientDefaults (Response st cth None) = Rejected"
  by (simp_all add: fetchClientDefaults_def)

section \<open>Properties of client selection and binding\<close>

lemma enter_suppressed:
  "\<not> all_digits (trim (client_value p)) \<Longrightarrow>
     handleClientChange_enter p = (warn ''client id not numeric:'' p, None)"
  by (simp add: handleClientChange_enter_def Let_def)

lemma currentClientId_None:
  "(currentClientId rw = None)
     = ((auto_hidden rw = None \<or> auto_hidden rw = Some [])
        \<and> (\<forall>v. client_pk_input rw = Some v \<longrightarrow> \<not> all_digits v))"
  by (auto simp add: currentClientId_def all_digits_def split: option.splits)

lemma currentClientId_nonempty: "currentClientId rw = Some cid \<Longrightarrow> cid \<noteq> []"
  by (auto simp add: currentClientId_def split: option.splits if_splits)

text \<open>
  Claim C7, as amended (no client selected). \<^verbatim>\<open>handleClientChange\<close> returns before
  fetching, touching neither the fields nor the busy state, when the select's value
  with the white space around it trimmed is empty or not all decimal digits. In an
  admin row \<^verbatim>\<open>currentClientId\<close> is \<^verbatim>\<open>null\<close>, and neither a listener nor
  \<^verbatim>\<open>bindRow\<close> fetches, when the hidden autocomplete input is missing or empty and the
  client input is missing, empty or not all decimal digits; a non-empty value of the
  hidden input is taken as the client id as it is. \<^verbatim>\<open>onClientChange\<close> returns before
  fetching when the client input is missing, empty or not all decimal digits, and so
  does the admin change listener when the select's value is.
\<close>

theorem no_client_no_fetch:
  "(\<not> all_digits (trim (client_value p)) \<longrightarrow>
       snd (handleClientChange_enter p) = None
     \<and> requests (fst (handleClientChange_enter p)) = requests p
     \<and> located (fst (handleClientChange_enter p)) = located p
     \<and> events (fst (handleClientChange_enter p)) = events p
     \<and> gate_calls (fst (handleClientChange_enter p)) = gate_calls p
     \<and> spinner (fst (handleClientChange_enter p)) = spinner p)
   \<and> ((auto_hidden rw = None \<or> auto_hidden rw = Some [])
        \<and> (\<forall>v. client_pk_input rw = Some v \<longrightarrow> \<not> all_digits v)
        \<longrightarrow> currentClientId rw = None \<and> row_listener m rw = [] \<and> snd (bindRow rw) = [])
   \<and> (\<forall>v. auto_hidden rw = Some v \<and> v \<noteq> [] \<longrightarrow> currentClientId rw = Some v)
   \<and> ((\<forall>v. client_input f = Some v \<longrightarrow> \<not> all_digits v) \<longrightarrow> onClientChange_enter f = (f, None))
   \<and> (\<not> all_digits (client_value p) \<longrightarrow> admin_listener_enter isClient p = (p, None))"
proof -
  have e: "\<not> all_digits (client_value p) \<longrightarrow> admin_listener_enter isClient p = (p, None)"
    by (simp add: admin_listener_enter_def)
  have a: "\<not> all_digits (trim (client_value p)) \<longrightarrow>
       snd (handleClientChange_enter p) = None
     \<and> requests (fst (handleClientChange_enter p)) = requests p
     \<and> located (fst (handleClientChange_enter p)) = located p
     \<and> events (fst (handleClientChange_enter p)) = events p
     \<and> gate_calls (fst (handleClientChange_enter p)) = gate_calls p
     \<and> spinner (fst (handleClientChange_enter p)) = spinner p"
    by (simp add: enter_suppressed warn_def)
  have b: "(auto_hidden rw = None \<or> auto_hidden rw = Some [])
        \<and> (\<forall>v. client_pk_input rw = Some v \<longrightarrow> \<not> all_digits v)
        \<longrightarrow> currentClientId rw = None \<and> row_listener m rw = [] \<and> snd (bindRow rw) = []"
  proof
    assume "(auto_hidden rw = None \<or> auto_hidden rw = Some [])
        \<and> (\<forall>v. client_pk_input rw = Some v \<longrightarrow> \<not> all_digits v)"
    then have "currentClientId rw = None"
      using currentClientId_None [of rw] by blast
    then show "currentClientId rw = None \<and> row_listener m rw = [] \<and> snd (bindRow rw) = []"
      by (simp add: row_listener_def bindRow_def)
  qed
  have c: "\<forall>v. auto_hidden rw = Some v \<and> v \<noteq> [] \<longrightarrow> currentClientId rw = Some v"
    by (simp add: currentClientId_def)
  have d: "(\<forall>v. client_input f = Some v \<longrightarrow> \<not> all_digits v) \<longrightarrow> onClientChange_enter f = (f, None)"
    by (simp add: onClientChange_enter_def split: option.split)
  from a b c d e show ?thesis by blast
qed

lemma not_digits_na: "\<not> all_digits (trim ''n/a'')" "\<not> all_digits ''n/a''" "\<not> all_digits ''abc''"
  by (simp_all add: all_digits_def trim_values is_digit_def)

theorem no_client_no_fetch_witness:
  "\<not> all_digits (trim (client_value (scenario_page\<lparr>client_value := ''n/a''\<rparr>)))
   \<and> snd (handleClientChange_enter (scenario_page\<lparr>client_value := ''n/a''\<rparr>)) = None
   \<and> requests (fst (handleClientChange_enter (scenario_page\<lparr>client_value := ''n/a''\<rparr>))) = []
   \<and> field_value (fst (handleClientChange_enter (scenario_page\<lparr>client_value := ''n/a''\<rparr>))) Pickup = Some []
   \<and> auto_hidden cleared_row = Some [] \<and> client_pk_input cleared_row = Some ''n/a''
   \<and> currentClientId cleared_row = None
   \<and> row_listener True cleared_row = []
   \<and> auto_hidden hidden_row = Some ''abc''
   \<and> currentClientId hidden_row = Some ''abc''
   \<and> client_input (edited_form\<lparr>client_input := Some ''n/a''\<rparr>) = Some ''n/a''
   \<and> onClientChange_enter (edited_form\<lparr>client_input := Some ''n/a''\<rparr>)
        = (edited_form\<lparr>client_input := Some ''n/a''\<rparr>, None)
   \<and> \<not> all_digits (client_value (scenario_page\<lparr>client_value := ''n/a''\<rparr>))
   \<and> admin_listener_enter True (scenario_page\<lparr>client_value := ''n/a''\<rparr>)
        = (scenario_page\<lparr>client_value := ''n/a''\<rparr>, None)"
proof -
  let ?p = "scenario_page\<lparr>client_value := ''n/a''\<rparr>"
  let ?f = "edited_form\<lparr>client_input := Some ''n/a''\<rparr>"
  note t1 = no_client_no_fetch [where p = ?p and rw = cleared_row and m = True and f = ?f
                                  and isClient = True]
  note t2 = no_client_no_fetch [where p = ?p and rw = hidden_row and m = True and f = ?f
                                  and isClient = True]
  have h1: "\<not> all_digits (trim (client_value ?p))" by (simp add: not_digits_na)
  have h2: "auto_hidden cleared_row = Some []" "client_pk_input cleared_row = Some ''n/a''"
    by (simp_all add: cleared_row_def)
  have h3: "auto_hidden hidden_row = Some ''abc''" by (simp add: hidden_row_def)
  have h4: "client_input ?f = Some ''n/a''" by simp
  from t1 h1 have 1: "snd (handleClientChange_enter ?p) = None"
    "requests (fst (handleClientChange_enter ?p)) = []"
    "field_value (fst (handleClientChange_enter ?p)) Pickup = Some []"
    by (simp_all add: field_value_def scenario_page_def blank_def)
  from t1 h2 not_digits_na have 2: "currentClientId cleared_row = None" "row_listener True cleared_row = []"
    by simp_all
  from t2 h3 have 3: "currentClientId hidden_row = Some ''abc''" by simp
  from t1 h4 not_digits_na have 4: "onClientChange_enter ?f = (?f, None)" by simp
  have h5: "\<not> all_digits (client_value ?p)" by (simp add: not_digits_na)
  from t1 h5 have 5: "admin_listener_enter True ?p = (?p, None)" by blast
  from h1 h2 h3 h4 h5 1 2 3 4 5 show ?thesis by blast
qed

theorem hidden_value_counterexample:
  "\<not> all_digits ''abc''
   \<and> currentClientId hidden_row = Some ''abc''
   \<and> row_listener True hidden_row = [''/service/admin/ajax/client/abc/defaults/'']
   \<and> \<not> all_digits '' 42 ''
   \<and> snd (handleClientChange_enter (scenario_page\<lparr>client_value := '' 42 ''\<rparr>))
        = Some \<lparr>pend_url = ''/service/api/client/42/mini/'', pend_sp = True\<rparr>"
  by (simp add: all_digits_def is_digit_def currentClientId_def hidden_row_def edited_row_def
        row_listener_def applyClientDefaults_enter_def snd_enter trim_values
        ensureSpinnerFor_def scenario_page_def)

text \<open>A value with U+00A0 in front of the digits is trimmed to the digits and fetched
  for, as a value with a space in front is.\<close>

lemma enter_after_no_break_space:
  "snd (handleClientChange_enter
          (scenario_page\<lparr>client_value := char_of (194::nat) # char_of (160::nat) # ''42''\<rparr>))
     = Some \<lparr>pend_url = ''/service/api/client/42/mini/'', pend_sp = True\<rparr>"
  by (simp add: snd_enter trim_values all_digits_def is_digit_def ensureSpinnerFor_def scenario_page_def)

lemma concat_replicate_single: "concat (replicate n [x]) = replicate n x"
  by (induction n) simp_all

lemma bindRow_facts:
  "listeners (fst (bindRow rw)) = Suc (listeners rw)"
  "currentClientId (fst (bindRow rw)) = currentClientId rw"
  by (simp_all add: bindRow_def currentClientId_def)

text \<open>
  Claim C9, as amended (binding again). \<^verbatim>\<open>bindRow\<close> keeps no marker of the rows it
  has bound: each pass of \<^verbatim>\<open>bindAll\<close> keeps the rows and their client ids and
  registers one more \<^verbatim>\<open>change\<close> listener on every row. A \<^verbatim>\<open>change\<close> event on a row
  that has a client id issues one defaults fetch per registered listener.
\<close>

theorem bind_all_registers_again:
  "length (rows (bindAll doc)) = length (rows doc)
   \<and> (\<forall>i < length (rows doc).
          listeners (rows (bindAll doc) ! i) = Suc (listeners (rows doc ! i))
        \<and> currentClientId (rows (bindAll doc) ! i) = currentClientId (rows doc ! i))
   \<and> (\<forall>i cid. i < length (rows doc) \<and> currentClientId (rows doc ! i) = Some cid \<longrightarrow>
          doc_requests (dispatch_change i True doc)
            = doc_requests doc
              @ replicate (listeners (rows doc ! i)) (''/service/admin/ajax/client/'' @ cid @ ''/defaults/''))"
proof -
  have a: "length (rows (bindAll doc)) = length (rows doc)"
    by (simp add: bindAll_def)
  have b: "\<forall>i < length (rows doc).
          listeners (rows (bindAll doc) ! i) = Suc (listeners (rows doc ! i))
        \<and> currentClientId (rows (bindAll doc) ! i) = currentClientId (rows doc ! i)"
    by (simp add: bindAll_def bindRow_facts)
  have c: "\<forall>i cid. i < length (rows doc) \<and> currentClientId (rows doc ! i) = Some cid \<longrightarrow>
          doc_requests (dispatch_change i True doc)
            = doc_requests doc
              @ replicate (listeners (rows doc ! i)) (''/service/admin/ajax/client/'' @ cid @ ''/defaults/'')"
    by (auto simp add: dispatch_change_def row_listener_def applyClientDefaults_enter_def
          concat_replicate_single dest: currentClientId_nonempty)
  from a b c show ?thesis by blast
qed

lemma edited_row_id: "currentClientId edited_row = Some ''42''"
  by (simp add: currentClientId_def edited_row_def all_digits_def is_digit_def)

theorem bind_all_registers_again_witness:
  "length (rows one_row_doc) = 1
   \<and> currentClientId (rows one_row_doc ! 0) = Some ''42''
   \<and> listeners (rows one_row_doc ! 0) = 0
   \<and> listeners (rows (bindAll one_row_doc) ! 0) = 1
   \<and> listeners (rows (bindAll (bindAll one_row_doc)) ! 0) = 2
   \<and> doc_requests (dispatch_change 0 True (bindAll (bindAll one_row_doc)))
        = doc_requests (bindAll (bindAll one_row_doc))
          @ [''/service/admin/ajax/client/42/defaults/'', ''/service/admin/ajax/client/42/defaults/'']"
proof -
  let ?d1 = "bindAll one_row_doc" and ?d2 = "bindAll (bindAll one_row_doc)"
  note t0 = bind_all_registers_again [of one_row_doc]
  note t1 = bind_all_registers_again [of ?d1]
  note t2 = bind_all_registers_again [of ?d2]
  have l0: "length (rows one_row_doc) = 1" "listeners (rows one_row_doc ! 0) = 0"
    "currentClientId (rows one_row_doc ! 0) = Some ''42''"
    by (simp_all add: one_row_doc_def edited_row_id) (simp add: edited_row_def)
  from t0 l0 have l1: "length (rows ?d1) = 1" "listeners (rows ?d1 ! 0) = 1"
    "currentClientId (rows ?d1 ! 0) = Some ''42''"
    by simp_all
  from t1 l1 have l2: "length (rows ?d2) = 1" "listeners (rows ?d2 ! 0) = 2"
    "currentClientId (rows ?d2 ! 0) = Some ''42''"
    by simp_all
  from t2 l2 have r: "doc_requests (dispatch_change 0 True ?d2)
        = doc_requests ?d2
          @ [''/service/admin/ajax/client/42/defaults/'', ''/service/admin/ajax/client/42/defaults/'']"
    by (simp add: numeral_2_eq_2)
  from l0 l1 l2 r show ?thesis by blast
qed

theorem double_bind_counterexample:
  "listeners (rows (bindAll (bindAll one_row_doc)) ! 0) = 2
   \<and> doc_requests (dispatch_change 0 True ((bindAll (bindAll one_row_doc))\<lparr>doc_requests := []\<rparr>))
        = [''/service/admin/ajax/client/42/defaults/'', ''/service/admin/ajax/client/42/defaults/'']"
  by (simp add: bindAll_def one_row_doc_def bindRow_def dispatch_change_def row_listener_def
        applyClientDefaults_enter_def currentClientId_def edited_row_def all_digits_def is_digit_def
        numeral_2_eq_2)

end
